theory Spec2Isabelle
  imports Main "HOL-Library.Word"
begin

section \<open>Values of the C API\<close>

text \<open>
  The model follows \<^verbatim>\<open>lib/api/wasm_c.cpp\<close>, function by function and macro by macro.
\<close>

text \<open>
  Modelled from the spec: the enumerations \<^verbatim>\<open>wasm_valkind_t\<close>, \<^verbatim>\<open>wasm_mutability_t\<close> and
  \<^verbatim>\<open>wasm_externkind_t\<close> are declared in \<^verbatim>\<open>wasm/wasm.h\<close>, which is missing from the sources.
  The spec gives ValueKind as {I32, I64, F32, F64, ANYREF, FUNCREF}, Mutability as
  {CONST, VAR} and ExternKind as {FUNC, GLOBAL, TABLE, MEMORY}; the constructors keep the
  names the code uses. The C types behind the enumerations are plain bytes, so each
  discriminant that a \<^verbatim>\<open>switch\<close> of the code inspects has one more constructor, which stands
  for every byte outside the enumeration.
\<close>

datatype wasm_valkind =
    WASM_I32 | WASM_I64 | WASM_F32 | WASM_F64 | WASM_ANYREF | WASM_FUNCREF
  | VALKIND_other nat

datatype wasm_mutability = WASM_CONST | WASM_VAR

datatype wasm_externkind =
    WASM_EXTERN_FUNC | WASM_EXTERN_GLOBAL | WASM_EXTERN_TABLE | WASM_EXTERN_MEMORY
  | EXTERNKIND_other nat

section \<open>Memory\<close>

text \<open>
  Every object lives in a cell of the store, whether it was made by \<^verbatim>\<open>new\<close> or is a
  variable of the caller. A pointer is \<open>None\<close> (\<^verbatim>\<open>nullptr\<close>) or a location: a whole cell,
  or a member of the object in a cell (\<^verbatim>\<open>&functype->params\<close>, \<^verbatim>\<open>&functype->results\<close>,
  \<^verbatim>\<open>&globaltype->content\<close>, \<^verbatim>\<open>&importtype->modname\<close>, and \<^verbatim>\<open>&name\<close> of an import or
  export type). \<open>Wild\<close> is the pointer that a pointer holds before its first assignment, as
  a slot of a fresh pointer array does: it leads nowhere.
\<close>

type_synonym addr = nat

datatype loc =
    At addr | Params_of addr | Results_of addr | Content_of addr
  | Modname_of addr | Name_of addr | Wild

type_synonym ptr = "loc option"

text \<open>What the C++ standard leaves undefined is a value of the model.\<close>

datatype fault = Null_dereference | Invalid_pointer | Out_of_bounds | Unreachable

text \<open>
  Modelled from the spec: \<^verbatim>\<open>wasm_limits_t\<close> is declared in the missing \<^verbatim>\<open>wasm/wasm.h\<close>; the
  spec gives Limits as {min: u32, max: u32}.
\<close>

record wasm_limits =
  limits_min :: "32 word"
  limits_max :: "32 word"

text \<open>
  Modelled from the spec: the structs \<^verbatim>\<open>wasm_<name>_vec_t\<close> are declared in the missing
  \<^verbatim>\<open>wasm/wasm.h\<close>; the spec gives a Vector as {size: usize, data: owned buffer}. The code
  only compares and counts sizes, so a size is a natural number.
\<close>

record wasm_vec =
  vec_size :: nat
  vec_data :: ptr

text \<open>
  Modelled from the spec: \<^verbatim>\<open>wasm_val_t\<close> is declared in the missing \<^verbatim>\<open>wasm/wasm.h\<close>; the spec
  gives a Value as a kind and a union over I32, I64, F32, F64 and the two reference kinds.
  The code reaches the union \<^verbatim>\<open>of\<close> through its members \<^verbatim>\<open>i64\<close> and \<^verbatim>\<open>ref\<close> and as a whole:
  it holds the bits of a number (\<^verbatim>\<open>i32\<close>, \<^verbatim>\<open>i64\<close>, \<^verbatim>\<open>f32\<close>, \<^verbatim>\<open>f64\<close> share them) or the
  member \<^verbatim>\<open>ref\<close>.
\<close>

datatype wasm_of = Of_bits "64 word" | Of_ref ptr

record wasm_val =
  val_kind :: wasm_valkind
  val_of :: wasm_of

text \<open>
  Modelled from the spec: \<^verbatim>\<open>WasmEdge::Configure\<close> and the loader, validator, interpreter
  and store manager built from it are declared in headers missing from the sources. The
  spec has the engine own a configuration snapshot and the interpreter built from it, and
  the store own the loader, validator and store manager: a configuration is an opaque
  snapshot, and each collaborator is known by the configuration it was built from.
\<close>

datatype Configure = Configure nat

datatype cell =
    Config_obj Configure
      \<comment> \<open>\<^verbatim>\<open>wasm_config_t\<close>: conf\<close>
  | Engine_obj Configure Configure
      \<comment> \<open>\<^verbatim>\<open>wasm_engine_t\<close>: conf, interp\<close>
  | Store_obj ptr Configure Configure
      \<comment> \<open>\<^verbatim>\<open>wasm_store_t\<close>: engine, load, valid (and an empty store manager)\<close>
  | ValType_obj wasm_valkind
      \<comment> \<open>\<^verbatim>\<open>wasm_valtype_t\<close>: kind\<close>
  | FuncType_obj wasm_externkind wasm_vec wasm_vec
      \<comment> \<open>\<^verbatim>\<open>wasm_functype_t\<close>: kind (of the base), params, results\<close>
  | GlobalType_obj wasm_externkind wasm_valkind wasm_mutability
      \<comment> \<open>\<^verbatim>\<open>wasm_globaltype_t\<close>: kind (of the base), content.kind, mutability\<close>
  | TableType_obj wasm_externkind wasm_valkind wasm_limits
      \<comment> \<open>\<^verbatim>\<open>wasm_tabletype_t\<close>: kind (of the base), valtype.kind, limits\<close>
  | MemoryType_obj wasm_externkind wasm_limits
      \<comment> \<open>\<^verbatim>\<open>wasm_memorytype_t\<close>: kind (of the base), limits\<close>
  | ImportType_obj wasm_vec wasm_vec ptr
      \<comment> \<open>\<^verbatim>\<open>wasm_importtype_t\<close>: modname, name, type\<close>
  | ExportType_obj wasm_vec ptr
      \<comment> \<open>\<^verbatim>\<open>wasm_exporttype_t\<close>: name, type\<close>
  | Ref_obj ptr "nat option"
      \<comment> \<open>\<^verbatim>\<open>wasm_ref_t\<close>: host_info, finalizer (a function pointer, \<open>None\<close> when null)\<close>
  | Vec_var wasm_vec
      \<comment> \<open>a \<^verbatim>\<open>wasm_<name>_vec_t\<close> of the caller\<close>
  | Limits_var wasm_limits
      \<comment> \<open>a \<^verbatim>\<open>wasm_limits_t\<close> of the caller\<close>
  | Val_var wasm_val
      \<comment> \<open>a \<^verbatim>\<open>wasm_val_t\<close> of the caller\<close>
  | Ptr_array "ptr list"
      \<comment> \<open>\<^verbatim>\<open>wasm_<name>_t *[n]\<close>\<close>
  | Byte_array "8 word list"
      \<comment> \<open>\<^verbatim>\<open>wasm_byte_t[n]\<close>\<close>
  | Host_data "8 word list"
      \<comment> \<open>data of the embedder, the target of a \<^verbatim>\<open>host_info\<close>\<close>

text \<open>
  The state: the cells (a released cell stays in the list as \<open>None\<close>, and no address is
  handed out twice), the outcomes of the coming \<^verbatim>\<open>new (std::nothrow)\<close> (\<open>False\<close>: it returns
  null; beyond the list every allocation succeeds), what a vector member holds before its
  first assignment, and the callbacks invoked so far, each with its argument.
\<close>

record state =
  heap :: "cell option list"
  plan :: "bool list"
  uninit :: "loc \<Rightarrow> wasm_vec"
  calls :: "(nat \<times> ptr) list"

definition and_then :: "fault + 'a \<Rightarrow> ('a \<Rightarrow> fault + 'b) \<Rightarrow> fault + 'b" where
  "and_then m k = (case m of Inl e \<Rightarrow> Inl e | Inr x \<Rightarrow> k x)"

definition cell_at :: "state \<Rightarrow> addr \<Rightarrow> cell option" where
  "cell_at s a = (if a < length (heap s) then heap s ! a else None)"

definition put_cell :: "state \<Rightarrow> addr \<Rightarrow> cell \<Rightarrow> state" where
  "put_cell s a c = s\<lparr>heap := (heap s)[a := Some c]\<rparr>"

text \<open>\<^verbatim>\<open>operator delete\<close>: the cell is gone.\<close>

definition release :: "state \<Rightarrow> addr \<Rightarrow> state" where
  "release s a = s\<lparr>heap := (heap s)[a := None]\<rparr>"

text \<open>\<^verbatim>\<open>operator new (std::nothrow)\<close>: whether storage was found.\<close>

definition nothrow_alloc :: "state \<Rightarrow> bool \<times> state" where
  "nothrow_alloc s = (case plan s of [] \<Rightarrow> (True, s) | b # bs \<Rightarrow> (b, s\<lparr>plan := bs\<rparr>))"

definition place :: "state \<Rightarrow> cell \<Rightarrow> addr \<times> state" where
  "place s c = (length (heap s), s\<lparr>heap := heap s @ [Some c]\<rparr>)"

text \<open>
  \<^verbatim>\<open>new (std::nothrow) T(args)\<close>: when no storage is found the result is null and the
  constructor does not run. Otherwise the member initialisers \<open>inits\<close> are evaluated (they
  may dereference an argument), the object is placed, and the constructor's body runs.
\<close>

definition new_nothrow ::
  "state \<Rightarrow> (addr \<Rightarrow> state \<Rightarrow> fault + cell) \<Rightarrow> (addr \<Rightarrow> state \<Rightarrow> fault + state)
    \<Rightarrow> fault + ptr \<times> state" where
  "new_nothrow s inits body =
     (case nothrow_alloc s of
        (False, s1) \<Rightarrow> Inr (None, s1)
      | (True, s1) \<Rightarrow>
          and_then (inits (length (heap s1)) s1) (\<lambda>c.
          case place s1 c of (a, s2) \<Rightarrow>
          and_then (body a s2) (\<lambda>s3. Inr (Some (At a), s3))))"

definition no_body :: "addr \<Rightarrow> state \<Rightarrow> fault + state" where
  "no_body a s = Inr s"

text \<open>\<^verbatim>\<open>delete p\<close> for a class with a trivial destructor, \<open>is_T\<close> telling its objects.\<close>

definition delete_obj :: "(cell \<Rightarrow> bool) \<Rightarrow> state \<Rightarrow> loc \<Rightarrow> fault + state" where
  "delete_obj is_T s this =
     (case this of
        At a \<Rightarrow>
          (case cell_at s a of
             Some c \<Rightarrow> if is_T c then Inr (release s a) else Inl Invalid_pointer
           | None \<Rightarrow> Inl Invalid_pointer)
      | _ \<Rightarrow> Inl Invalid_pointer)"

section \<open>The helper macros\<close>

text \<open>
  \<^verbatim>\<open>WASM_STRUCT_GET_ATTR(name, attr, default, ref_or_none)\<close>:
  \<^verbatim>\<open>if (name) { return ref_or_none(name->attr); } return default\<close>.
\<close>

definition WASM_STRUCT_GET_ATTR :: "ptr \<Rightarrow> (loc \<Rightarrow> 'a) \<Rightarrow> 'a \<Rightarrow> 'a" where
  "WASM_STRUCT_GET_ATTR name attr dflt = (case name of Some l \<Rightarrow> attr l | None \<Rightarrow> dflt)"

text \<open>\<^verbatim>\<open>WASM_DECLARE_OWN_IMPL(name)\<close>: \<^verbatim>\<open>wasm_<name>_delete\<close>, given \<^verbatim>\<open>destroy()\<close> of the type.\<close>

definition WASM_DECLARE_OWN_IMPL ::
  "(state \<Rightarrow> loc \<Rightarrow> fault + state) \<Rightarrow> state \<Rightarrow> ptr \<Rightarrow> fault + state" where
  "WASM_DECLARE_OWN_IMPL destroy s obj = WASM_STRUCT_GET_ATTR obj (destroy s) (Inr s)"

text \<open>\<^verbatim>\<open>WASM_DECLARE_COPY_IMPL(name)\<close>: \<^verbatim>\<open>wasm_<name>_copy\<close>, given \<^verbatim>\<open>copy()\<close> of the type.\<close>

definition WASM_DECLARE_COPY_IMPL ::
  "(state \<Rightarrow> loc \<Rightarrow> fault + ptr \<times> state) \<Rightarrow> state \<Rightarrow> ptr \<Rightarrow> fault + ptr \<times> state" where
  "WASM_DECLARE_COPY_IMPL copy s inp = WASM_STRUCT_GET_ATTR inp (copy s) (Inr (None, s))"

section \<open>Configuration, engine and store\<close>

definition is_config :: "cell \<Rightarrow> bool" where
  "is_config c = (case c of Config_obj _ \<Rightarrow> True | _ \<Rightarrow> False)"

definition is_engine :: "cell \<Rightarrow> bool" where
  "is_engine c = (case c of Engine_obj _ _ \<Rightarrow> True | _ \<Rightarrow> False)"

definition is_store :: "cell \<Rightarrow> bool" where
  "is_store c = (case c of Store_obj _ _ _ \<Rightarrow> True | _ \<Rightarrow> False)"

text \<open>\<^verbatim>\<open>c->conf\<close> for a \<^verbatim>\<open>const wasm_config_t *c\<close>.\<close>

definition config_conf :: "state \<Rightarrow> ptr \<Rightarrow> fault + Configure" where
  "config_conf s c =
     (case c of
        None \<Rightarrow> Inl Null_dereference
      | Some (At a) \<Rightarrow>
          (case cell_at s a of Some (Config_obj cf) \<Rightarrow> Inr cf | _ \<Rightarrow> Inl Invalid_pointer)
      | Some _ \<Rightarrow> Inl Invalid_pointer)"

text \<open>\<^verbatim>\<open>e->conf\<close> for a \<^verbatim>\<open>wasm_engine_t *e\<close>.\<close>

definition engine_conf :: "state \<Rightarrow> ptr \<Rightarrow> fault + Configure" where
  "engine_conf s e =
     (case e of
        None \<Rightarrow> Inl Null_dereference
      | Some (At a) \<Rightarrow>
          (case cell_at s a of Some (Engine_obj cf _) \<Rightarrow> Inr cf | _ \<Rightarrow> Inl Invalid_pointer)
      | Some _ \<Rightarrow> Inl Invalid_pointer)"

text \<open>\<^verbatim>\<open>wasm_engine_t(const wasm_config_t *c) : conf(c->conf), interp(c->conf, nullptr)\<close>.\<close>

definition wasm_engine_t_init :: "ptr \<Rightarrow> addr \<Rightarrow> state \<Rightarrow> fault + cell" where
  "wasm_engine_t_init c this s = and_then (config_conf s c) (\<lambda>cf. Inr (Engine_obj cf cf))"

text \<open>\<^verbatim>\<open>wasm_store_t(wasm_engine_t *e) : engine(e), load(e->conf), valid(e->conf), store()\<close>.\<close>

definition wasm_store_t_init :: "ptr \<Rightarrow> addr \<Rightarrow> state \<Rightarrow> fault + cell" where
  "wasm_store_t_init e this s = and_then (engine_conf s e) (\<lambda>cf. Inr (Store_obj e cf cf))"

definition wasm_config_delete :: "state \<Rightarrow> ptr \<Rightarrow> fault + state" where
  "wasm_config_delete = WASM_DECLARE_OWN_IMPL (delete_obj is_config)"

definition wasm_engine_delete :: "state \<Rightarrow> ptr \<Rightarrow> fault + state" where
  "wasm_engine_delete = WASM_DECLARE_OWN_IMPL (delete_obj is_engine)"

definition wasm_store_delete :: "state \<Rightarrow> ptr \<Rightarrow> fault + state" where
  "wasm_store_delete = WASM_DECLARE_OWN_IMPL (delete_obj is_store)"

text \<open>
  \<^verbatim>\<open>wasm_engine_new_with_config(conf)\<close>:
  \<^verbatim>\<open>res = new (std::nothrow) wasm_engine_t(conf); wasm_config_delete(conf); return res;\<close>
\<close>

definition wasm_engine_new_with_config :: "state \<Rightarrow> ptr \<Rightarrow> fault + ptr \<times> state" where
  "wasm_engine_new_with_config s conf =
     and_then (new_nothrow s (wasm_engine_t_init conf) no_body) (\<lambda>(res, s1).
     and_then (wasm_config_delete s1 conf) (\<lambda>s2. Inr (res, s2)))"

text \<open>
  \<^verbatim>\<open>wasm_store_new(engine)\<close>:
  \<^verbatim>\<open>if (engine) { return new (std::nothrow) wasm_store_t(engine); } return nullptr;\<close>
\<close>

definition wasm_store_new :: "state \<Rightarrow> ptr \<Rightarrow> fault + ptr \<times> state" where
  "wasm_store_new s engine =
     (if engine \<noteq> None then new_nothrow s (wasm_store_t_init engine) no_body
      else Inr (None, s))"

section \<open>References\<close>

text \<open>The members of the \<^verbatim>\<open>wasm_ref_t\<close> a pointer leads to.\<close>

definition ref_at :: "state \<Rightarrow> loc \<Rightarrow> fault + ptr \<times> nat option" where
  "ref_at s l =
     (case l of
        At a \<Rightarrow>
          (case cell_at s a of Some (Ref_obj h f) \<Rightarrow> Inr (h, f) | _ \<Rightarrow> Inl Invalid_pointer)
      | _ \<Rightarrow> Inl Invalid_pointer)"

definition is_ref :: "cell \<Rightarrow> bool" where
  "is_ref c = (case c of Ref_obj _ _ \<Rightarrow> True | _ \<Rightarrow> False)"


text \<open>
  \<^verbatim>\<open>wasm_ref_t::copy()\<close>: \<^verbatim>\<open>new (std::nothrow) wasm_ref_t(this)\<close>, with
  \<^verbatim>\<open>wasm_ref_t(const wasm_ref_t *ref) : host_info(ref->host_info), finalizer(ref->finalizer)\<close>.
\<close>

definition wasm_ref_t_copy :: "state \<Rightarrow> loc \<Rightarrow> fault + ptr \<times> state" where
  "wasm_ref_t_copy s this =
     new_nothrow s (\<lambda>a s1. and_then (ref_at s1 this) (\<lambda>(h, f). Inr (Ref_obj h f))) no_body"

text \<open>
  \<^verbatim>\<open>wasm_ref_t::destroy()\<close>: \<^verbatim>\<open>delete this\<close>, and the destructor \<^verbatim>\<open>~wasm_ref_t() {}\<close> is empty.
\<close>

definition wasm_ref_t_destroy :: "state \<Rightarrow> loc \<Rightarrow> fault + state" where
  "wasm_ref_t_destroy = delete_obj is_ref"

text \<open>\<^verbatim>\<open>WASM_DECLARE_REF_BASE_IMPL(ref)\<close>.\<close>

definition wasm_ref_delete :: "state \<Rightarrow> ptr \<Rightarrow> fault + state" where
  "wasm_ref_delete = WASM_DECLARE_OWN_IMPL wasm_ref_t_destroy"

definition wasm_ref_copy :: "state \<Rightarrow> ptr \<Rightarrow> fault + ptr \<times> state" where
  "wasm_ref_copy = WASM_DECLARE_COPY_IMPL wasm_ref_t_copy"


section \<open>Casts between an extern type and its variants\<close>

text \<open>
  The variants derive from \<^verbatim>\<open>wasm_externtype_t\<close>, their only and first base, and none has
  a virtual member: the implicit conversion to the base and the \<^verbatim>\<open>static_cast\<close> back keep
  the address. None of the sixteen functions reads or writes the store.
\<close>

definition wasm_functype_as_externtype :: "ptr \<Rightarrow> ptr" where
  "wasm_functype_as_externtype functype = functype"

definition wasm_globaltype_as_externtype :: "ptr \<Rightarrow> ptr" where
  "wasm_globaltype_as_externtype globaltype = globaltype"

definition wasm_tabletype_as_externtype :: "ptr \<Rightarrow> ptr" where
  "wasm_tabletype_as_externtype tabletype = tabletype"

definition wasm_memorytype_as_externtype :: "ptr \<Rightarrow> ptr" where
  "wasm_memorytype_as_externtype memorytype = memorytype"

definition wasm_externtype_as_functype :: "ptr \<Rightarrow> ptr" where
  "wasm_externtype_as_functype externtype = externtype"

definition wasm_externtype_as_globaltype :: "ptr \<Rightarrow> ptr" where
  "wasm_externtype_as_globaltype externtype = externtype"

definition wasm_externtype_as_tabletype :: "ptr \<Rightarrow> ptr" where
  "wasm_externtype_as_tabletype externtype = externtype"

definition wasm_externtype_as_memorytype :: "ptr \<Rightarrow> ptr" where
  "wasm_externtype_as_memorytype externtype = externtype"

definition wasm_functype_as_externtype_const :: "ptr \<Rightarrow> ptr" where
  "wasm_functype_as_externtype_const functype = functype"

definition wasm_globaltype_as_externtype_const :: "ptr \<Rightarrow> ptr" where
  "wasm_globaltype_as_externtype_const globaltype = globaltype"

definition wasm_tabletype_as_externtype_const :: "ptr \<Rightarrow> ptr" where
  "wasm_tabletype_as_externtype_const tabletype = tabletype"

definition wasm_memorytype_as_externtype_const :: "ptr \<Rightarrow> ptr" where
  "wasm_memorytype_as_externtype_const memorytype = memorytype"

definition wasm_externtype_as_functype_const :: "ptr \<Rightarrow> ptr" where
  "wasm_externtype_as_functype_const externtype = externtype"

definition wasm_externtype_as_globaltype_const :: "ptr \<Rightarrow> ptr" where
  "wasm_externtype_as_globaltype_const externtype = externtype"

definition wasm_externtype_as_tabletype_const :: "ptr \<Rightarrow> ptr" where
  "wasm_externtype_as_tabletype_const externtype = externtype"

definition wasm_externtype_as_memorytype_const :: "ptr \<Rightarrow> ptr" where
  "wasm_externtype_as_memorytype_const externtype = externtype"

section \<open>Value types\<close>

definition is_valtype :: "cell \<Rightarrow> bool" where
  "is_valtype c = (case c of ValType_obj _ \<Rightarrow> True | _ \<Rightarrow> False)"

text \<open>
  \<^verbatim>\<open>vt->kind\<close> through a pointer that is not null: the \<^verbatim>\<open>wasm_valtype_t\<close> is an object of
  its own or the member \<^verbatim>\<open>content\<close> of a global type.
\<close>

definition valtype_kind_at :: "state \<Rightarrow> loc \<Rightarrow> fault + wasm_valkind" where
  "valtype_kind_at s l =
     (case l of
        At a \<Rightarrow>
          (case cell_at s a of Some (ValType_obj k) \<Rightarrow> Inr k | _ \<Rightarrow> Inl Invalid_pointer)
      | Content_of a \<Rightarrow>
          (case cell_at s a of
             Some (GlobalType_obj _ k _) \<Rightarrow> Inr k
           | _ \<Rightarrow> Inl Invalid_pointer)
      | _ \<Rightarrow> Inl Invalid_pointer)"

text \<open>\<^verbatim>\<open>vt->kind\<close> where nothing has checked \<^verbatim>\<open>vt\<close>.\<close>

definition deref_valtype :: "state \<Rightarrow> ptr \<Rightarrow> fault + wasm_valkind" where
  "deref_valtype s vt =
     (case vt of None \<Rightarrow> Inl Null_dereference | Some l \<Rightarrow> valtype_kind_at s l)"

text \<open>\<^verbatim>\<open>wasm_valtype_t(const wasm_valtype_t *vt) : kind(vt->kind)\<close>.\<close>

definition wasm_valtype_t_init :: "ptr \<Rightarrow> addr \<Rightarrow> state \<Rightarrow> fault + cell" where
  "wasm_valtype_t_init vt this s = and_then (deref_valtype s vt) (\<lambda>k. Inr (ValType_obj k))"

text \<open>\<^verbatim>\<open>wasm_valtype_t::copy()\<close>: \<^verbatim>\<open>new (std::nothrow) wasm_valtype_t(this)\<close>.\<close>

definition wasm_valtype_t_copy :: "state \<Rightarrow> loc \<Rightarrow> fault + ptr \<times> state" where
  "wasm_valtype_t_copy s this = new_nothrow s (wasm_valtype_t_init (Some this)) no_body"

text \<open>\<^verbatim>\<open>wasm_valtype_t::destroy()\<close>: \<^verbatim>\<open>delete this\<close>.\<close>

definition wasm_valtype_t_destroy :: "state \<Rightarrow> loc \<Rightarrow> fault + state" where
  "wasm_valtype_t_destroy = delete_obj is_valtype"

text \<open>\<^verbatim>\<open>WASM_DECLARE_TYPE_IMPL(valtype)\<close>: delete and copy (the vector follows below).\<close>

definition wasm_valtype_delete :: "state \<Rightarrow> ptr \<Rightarrow> fault + state" where
  "wasm_valtype_delete = WASM_DECLARE_OWN_IMPL wasm_valtype_t_destroy"

definition wasm_valtype_copy :: "state \<Rightarrow> ptr \<Rightarrow> fault + ptr \<times> state" where
  "wasm_valtype_copy = WASM_DECLARE_COPY_IMPL wasm_valtype_t_copy"

text \<open>\<^verbatim>\<open>wasm_valtype_new(kind)\<close>: \<^verbatim>\<open>new (std::nothrow) wasm_valtype_t(kind)\<close>.\<close>

definition wasm_valtype_new :: "state \<Rightarrow> wasm_valkind \<Rightarrow> fault + ptr \<times> state" where
  "wasm_valtype_new s kind = new_nothrow s (\<lambda>this s1. Inr (ValType_obj kind)) no_body"

text \<open>\<^verbatim>\<open>wasm_valtype_kind(valtype)\<close>: \<^verbatim>\<open>WASM_STRUCT_GET_ATTR(valtype, kind, WASM_I32, )\<close>.\<close>

definition wasm_valtype_kind :: "state \<Rightarrow> ptr \<Rightarrow> fault + wasm_valkind" where
  "wasm_valtype_kind s valtype =
     WASM_STRUCT_GET_ATTR valtype (valtype_kind_at s) (Inr WASM_I32)"

section \<open>Global, table and memory types\<close>

definition is_globaltype :: "cell \<Rightarrow> bool" where
  "is_globaltype c = (case c of GlobalType_obj _ _ _ \<Rightarrow> True | _ \<Rightarrow> False)"

definition is_tabletype :: "cell \<Rightarrow> bool" where
  "is_tabletype c = (case c of TableType_obj _ _ _ \<Rightarrow> True | _ \<Rightarrow> False)"

definition is_memorytype :: "cell \<Rightarrow> bool" where
  "is_memorytype c = (case c of MemoryType_obj _ _ \<Rightarrow> True | _ \<Rightarrow> False)"

text \<open>\<^verbatim>\<open>*lim\<close> for a \<^verbatim>\<open>const wasm_limits_t *lim\<close>.\<close>

definition deref_limits :: "state \<Rightarrow> ptr \<Rightarrow> fault + wasm_limits" where
  "deref_limits s lim =
     (case lim of
        None \<Rightarrow> Inl Null_dereference
      | Some (At a) \<Rightarrow>
          (case cell_at s a of Some (Limits_var lm) \<Rightarrow> Inr lm | _ \<Rightarrow> Inl Invalid_pointer)
      | Some _ \<Rightarrow> Inl Invalid_pointer)"

text \<open>
  \<^verbatim>\<open>wasm_globaltype_t(own wasm_valtype_t *vt, const wasm_mutability_t mut)\<close>
  \<^verbatim>\<open>: wasm_externtype_t(WASM_EXTERN_GLOBAL), content(vt), mutability(mut)\<close>
  \<^verbatim>\<open>{ wasm_valtype_delete(vt); }\<close>, where \<^verbatim>\<open>content(vt)\<close> is the constructor of
  \<^verbatim>\<open>wasm_valtype_t\<close> from a pointer.
\<close>

definition wasm_globaltype_t_init ::
  "ptr \<Rightarrow> wasm_mutability \<Rightarrow> addr \<Rightarrow> state \<Rightarrow> fault + cell" where
  "wasm_globaltype_t_init vt mut this s =
     and_then (deref_valtype s vt) (\<lambda>k. Inr (GlobalType_obj WASM_EXTERN_GLOBAL k mut))"

definition wasm_globaltype_t_body :: "ptr \<Rightarrow> addr \<Rightarrow> state \<Rightarrow> fault + state" where
  "wasm_globaltype_t_body vt this s = wasm_valtype_delete s vt"

text \<open>
  \<^verbatim>\<open>wasm_globaltype_t(const wasm_globaltype_t *globaltype)\<close>
  \<^verbatim>\<open>: wasm_externtype_t(WASM_EXTERN_GLOBAL), content(globaltype->content.kind),\<close>
  \<^verbatim>\<open>mutability(globaltype->mutability)\<close>.
\<close>

definition wasm_globaltype_t_copy_init :: "ptr \<Rightarrow> addr \<Rightarrow> state \<Rightarrow> fault + cell" where
  "wasm_globaltype_t_copy_init globaltype this s =
     (case globaltype of
        None \<Rightarrow> Inl Null_dereference
      | Some (At a) \<Rightarrow>
          (case cell_at s a of
             Some (GlobalType_obj _ k m) \<Rightarrow> Inr (GlobalType_obj WASM_EXTERN_GLOBAL k m)
           | _ \<Rightarrow> Inl Invalid_pointer)
      | Some _ \<Rightarrow> Inl Invalid_pointer)"

definition wasm_globaltype_t_copy :: "state \<Rightarrow> loc \<Rightarrow> fault + ptr \<times> state" where
  "wasm_globaltype_t_copy s this =
     new_nothrow s (wasm_globaltype_t_copy_init (Some this)) no_body"

definition wasm_globaltype_t_destroy :: "state \<Rightarrow> loc \<Rightarrow> fault + state" where
  "wasm_globaltype_t_destroy = delete_obj is_globaltype"

definition wasm_globaltype_delete :: "state \<Rightarrow> ptr \<Rightarrow> fault + state" where
  "wasm_globaltype_delete = WASM_DECLARE_OWN_IMPL wasm_globaltype_t_destroy"

definition wasm_globaltype_copy :: "state \<Rightarrow> ptr \<Rightarrow> fault + ptr \<times> state" where
  "wasm_globaltype_copy = WASM_DECLARE_COPY_IMPL wasm_globaltype_t_copy"

text \<open>
  \<^verbatim>\<open>wasm_globaltype_new(valtype, mutability)\<close>:
  \<^verbatim>\<open>new (std::nothrow) wasm_globaltype_t(valtype, mutability)\<close>.
\<close>

definition wasm_globaltype_new ::
  "state \<Rightarrow> ptr \<Rightarrow> wasm_mutability \<Rightarrow> fault + ptr \<times> state" where
  "wasm_globaltype_new s valtype mutability =
     new_nothrow s (wasm_globaltype_t_init valtype mutability) (wasm_globaltype_t_body valtype)"

text \<open>
  \<^verbatim>\<open>wasm_globaltype_content(globaltype)\<close>:
  \<^verbatim>\<open>WASM_STRUCT_GET_ATTR(globaltype, content, nullptr, &)\<close>. Taking the address of the
  member reads nothing.
\<close>

definition wasm_globaltype_content :: "ptr \<Rightarrow> fault + ptr" where
  "wasm_globaltype_content globaltype =
     WASM_STRUCT_GET_ATTR globaltype
       (\<lambda>l. case l of At a \<Rightarrow> Inr (Some (Content_of a)) | _ \<Rightarrow> Inl Invalid_pointer)
       (Inr None)"

text \<open>
  \<^verbatim>\<open>wasm_globaltype_mutability(globaltype)\<close>:
  \<^verbatim>\<open>WASM_STRUCT_GET_ATTR(globaltype, mutability, WASM_CONST, )\<close>.
\<close>

definition wasm_globaltype_mutability :: "state \<Rightarrow> ptr \<Rightarrow> fault + wasm_mutability" where
  "wasm_globaltype_mutability s globaltype =
     WASM_STRUCT_GET_ATTR globaltype
       (\<lambda>l. case l of
          At a \<Rightarrow>
            (case cell_at s a of
               Some (GlobalType_obj _ _ m) \<Rightarrow> Inr m
             | _ \<Rightarrow> Inl Invalid_pointer)
        | _ \<Rightarrow> Inl Invalid_pointer)
       (Inr WASM_CONST)"

text \<open>
  \<^verbatim>\<open>wasm_tabletype_t(own wasm_valtype_t *vt, const wasm_limits_t *lim)\<close>
  \<^verbatim>\<open>: wasm_externtype_t(WASM_EXTERN_TABLE), valtype(vt), limits(*lim)\<close>
  \<^verbatim>\<open>{ wasm_valtype_delete(vt); }\<close>.
\<close>

definition wasm_tabletype_t_init :: "ptr \<Rightarrow> ptr \<Rightarrow> addr \<Rightarrow> state \<Rightarrow> fault + cell" where
  "wasm_tabletype_t_init vt lim this s =
     and_then (deref_valtype s vt) (\<lambda>k.
     and_then (deref_limits s lim) (\<lambda>lm. Inr (TableType_obj WASM_EXTERN_TABLE k lm)))"

definition wasm_tabletype_t_body :: "ptr \<Rightarrow> addr \<Rightarrow> state \<Rightarrow> fault + state" where
  "wasm_tabletype_t_body vt this s = wasm_valtype_delete s vt"

text \<open>
  \<^verbatim>\<open>wasm_tabletype_t(const wasm_tabletype_t *tabletype)\<close>
  \<^verbatim>\<open>: wasm_externtype_t(WASM_EXTERN_TABLE), valtype(&(tabletype->valtype)),\<close>
  \<^verbatim>\<open>limits(tabletype->limits)\<close>.
\<close>

definition wasm_tabletype_t_copy_init :: "ptr \<Rightarrow> addr \<Rightarrow> state \<Rightarrow> fault + cell" where
  "wasm_tabletype_t_copy_init tabletype this s =
     (case tabletype of
        None \<Rightarrow> Inl Null_dereference
      | Some (At a) \<Rightarrow>
          (case cell_at s a of
             Some (TableType_obj _ k lm) \<Rightarrow> Inr (TableType_obj WASM_EXTERN_TABLE k lm)
           | _ \<Rightarrow> Inl Invalid_pointer)
      | Some _ \<Rightarrow> Inl Invalid_pointer)"

text \<open>
  \<^verbatim>\<open>wasm_tabletype_new(valtype, limits)\<close>:
  \<^verbatim>\<open>new (std::nothrow) wasm_tabletype_t(valtype, limits)\<close>.
\<close>

definition wasm_tabletype_new :: "state \<Rightarrow> ptr \<Rightarrow> ptr \<Rightarrow> fault + ptr \<times> state" where
  "wasm_tabletype_new s valtype limits =
     new_nothrow s (wasm_tabletype_t_init valtype limits) (wasm_tabletype_t_body valtype)"

text \<open>
  \<^verbatim>\<open>wasm_tabletype_t::copy()\<close> and \<^verbatim>\<open>wasm_tabletype_t::destroy()\<close>, and delete and copy of
  \<^verbatim>\<open>WASM_DECLARE_TYPE_IMPL(tabletype)\<close>.
\<close>

definition wasm_tabletype_t_copy :: "state \<Rightarrow> loc \<Rightarrow> fault + ptr \<times> state" where
  "wasm_tabletype_t_copy s this =
     new_nothrow s (wasm_tabletype_t_copy_init (Some this)) no_body"

definition wasm_tabletype_t_destroy :: "state \<Rightarrow> loc \<Rightarrow> fault + state" where
  "wasm_tabletype_t_destroy = delete_obj is_tabletype"

definition wasm_tabletype_delete :: "state \<Rightarrow> ptr \<Rightarrow> fault + state" where
  "wasm_tabletype_delete = WASM_DECLARE_OWN_IMPL wasm_tabletype_t_destroy"

definition wasm_tabletype_copy :: "state \<Rightarrow> ptr \<Rightarrow> fault + ptr \<times> state" where
  "wasm_tabletype_copy = WASM_DECLARE_COPY_IMPL wasm_tabletype_t_copy"

text \<open>
  \<^verbatim>\<open>wasm_memorytype_t(const wasm_limits_t *lim)\<close>
  \<^verbatim>\<open>: wasm_externtype_t(WASM_EXTERN_MEMORY), limits(*lim)\<close>.
\<close>

definition wasm_memorytype_t_init :: "ptr \<Rightarrow> addr \<Rightarrow> state \<Rightarrow> fault + cell" where
  "wasm_memorytype_t_init lim this s =
     and_then (deref_limits s lim) (\<lambda>lm. Inr (MemoryType_obj WASM_EXTERN_MEMORY lm))"

text \<open>
  \<^verbatim>\<open>wasm_memorytype_t(const wasm_memorytype_t *memorytype)\<close>
  \<^verbatim>\<open>: wasm_externtype_t(WASM_EXTERN_MEMORY), limits(memorytype->limits)\<close>.
\<close>

definition wasm_memorytype_t_copy_init :: "ptr \<Rightarrow> addr \<Rightarrow> state \<Rightarrow> fault + cell" where
  "wasm_memorytype_t_copy_init memorytype this s =
     (case memorytype of
        None \<Rightarrow> Inl Null_dereference
      | Some (At a) \<Rightarrow>
          (case cell_at s a of
             Some (MemoryType_obj _ lm) \<Rightarrow> Inr (MemoryType_obj WASM_EXTERN_MEMORY lm)
           | _ \<Rightarrow> Inl Invalid_pointer)
      | Some _ \<Rightarrow> Inl Invalid_pointer)"

text \<open>\<^verbatim>\<open>wasm_memorytype_new(limit)\<close>: \<^verbatim>\<open>new (std::nothrow) wasm_memorytype_t(limit)\<close>.\<close>

definition wasm_memorytype_new :: "state \<Rightarrow> ptr \<Rightarrow> fault + ptr \<times> state" where
  "wasm_memorytype_new s limit = new_nothrow s (wasm_memorytype_t_init limit) no_body"

text \<open>
  \<^verbatim>\<open>wasm_memorytype_t::copy()\<close> and \<^verbatim>\<open>wasm_memorytype_t::destroy()\<close>, and delete and copy of
  \<^verbatim>\<open>WASM_DECLARE_TYPE_IMPL(memorytype)\<close>.
\<close>

definition wasm_memorytype_t_copy :: "state \<Rightarrow> loc \<Rightarrow> fault + ptr \<times> state" where
  "wasm_memorytype_t_copy s this =
     new_nothrow s (wasm_memorytype_t_copy_init (Some this)) no_body"

definition wasm_memorytype_t_destroy :: "state \<Rightarrow> loc \<Rightarrow> fault + state" where
  "wasm_memorytype_t_destroy = delete_obj is_memorytype"

definition wasm_memorytype_delete :: "state \<Rightarrow> ptr \<Rightarrow> fault + state" where
  "wasm_memorytype_delete = WASM_DECLARE_OWN_IMPL wasm_memorytype_t_destroy"

definition wasm_memorytype_copy :: "state \<Rightarrow> ptr \<Rightarrow> fault + ptr \<times> state" where
  "wasm_memorytype_copy = WASM_DECLARE_COPY_IMPL wasm_memorytype_t_copy"

section \<open>Vectors\<close>

text \<open>
  A \<^verbatim>\<open>wasm_<name>_vec_t\<close> is a variable of the caller, the member \<^verbatim>\<open>params\<close> or
  \<^verbatim>\<open>results\<close> of a function type, the member \<^verbatim>\<open>modname\<close> of an import type, or the
  member \<^verbatim>\<open>name\<close> of an import or export type.
\<close>

definition load_vec :: "state \<Rightarrow> loc \<Rightarrow> fault + wasm_vec" where
  "load_vec s l =
     (case l of
        At a \<Rightarrow> (case cell_at s a of Some (Vec_var v) \<Rightarrow> Inr v | _ \<Rightarrow> Inl Invalid_pointer)
      | Params_of a \<Rightarrow>
          (case cell_at s a of Some (FuncType_obj k p r) \<Rightarrow> Inr p | _ \<Rightarrow> Inl Invalid_pointer)
      | Results_of a \<Rightarrow>
          (case cell_at s a of Some (FuncType_obj k p r) \<Rightarrow> Inr r | _ \<Rightarrow> Inl Invalid_pointer)
      | Modname_of a \<Rightarrow>
          (case cell_at s a of Some (ImportType_obj m n t) \<Rightarrow> Inr m | _ \<Rightarrow> Inl Invalid_pointer)
      | Name_of a \<Rightarrow>
          (case cell_at s a of
             Some (ImportType_obj m n t) \<Rightarrow> Inr n
           | Some (ExportType_obj n t) \<Rightarrow> Inr n
           | _ \<Rightarrow> Inl Invalid_pointer)
      | _ \<Rightarrow> Inl Invalid_pointer)"

definition store_vec :: "state \<Rightarrow> loc \<Rightarrow> wasm_vec \<Rightarrow> fault + state" where
  "store_vec s l v =
     (case l of
        At a \<Rightarrow>
          (case cell_at s a of
             Some (Vec_var _) \<Rightarrow> Inr (put_cell s a (Vec_var v))
           | _ \<Rightarrow> Inl Invalid_pointer)
      | Params_of a \<Rightarrow>
          (case cell_at s a of
             Some (FuncType_obj k p r) \<Rightarrow> Inr (put_cell s a (FuncType_obj k v r))
           | _ \<Rightarrow> Inl Invalid_pointer)
      | Results_of a \<Rightarrow>
          (case cell_at s a of
             Some (FuncType_obj k p r) \<Rightarrow> Inr (put_cell s a (FuncType_obj k p v))
           | _ \<Rightarrow> Inl Invalid_pointer)
      | Modname_of a \<Rightarrow>
          (case cell_at s a of
             Some (ImportType_obj m n t) \<Rightarrow> Inr (put_cell s a (ImportType_obj v n t))
           | _ \<Rightarrow> Inl Invalid_pointer)
      | Name_of a \<Rightarrow>
          (case cell_at s a of
             Some (ImportType_obj m n t) \<Rightarrow> Inr (put_cell s a (ImportType_obj m v t))
           | Some (ExportType_obj n t) \<Rightarrow> Inr (put_cell s a (ExportType_obj v t))
           | _ \<Rightarrow> Inl Invalid_pointer)
      | _ \<Rightarrow> Inl Invalid_pointer)"

text \<open>\<^verbatim>\<open>vec->size = n\<close> and \<^verbatim>\<open>vec->data = p\<close>.\<close>

definition set_vec_size :: "state \<Rightarrow> loc \<Rightarrow> nat \<Rightarrow> fault + state" where
  "set_vec_size s l n = and_then (load_vec s l) (\<lambda>v. store_vec s l (v\<lparr>vec_size := n\<rparr>))"

definition set_vec_data :: "state \<Rightarrow> loc \<Rightarrow> ptr \<Rightarrow> fault + state" where
  "set_vec_data s l p = and_then (load_vec s l) (\<lambda>v. store_vec s l (v\<lparr>vec_data := p\<rparr>))"

text \<open>
  \<^verbatim>\<open>std::swap(a, b)\<close> on two vector structs: \<^verbatim>\<open>tmp = a; a = b; b = tmp\<close>.
\<close>

definition swap_vec :: "state \<Rightarrow> ptr \<Rightarrow> ptr \<Rightarrow> fault + state" where
  "swap_vec s a b =
     (case a of
        None \<Rightarrow> Inl Null_dereference
      | Some la \<Rightarrow>
          (case b of
             None \<Rightarrow> Inl Null_dereference
           | Some lb \<Rightarrow>
               and_then (load_vec s la) (\<lambda>tmp.
               and_then (load_vec s lb) (\<lambda>vb.
               and_then (store_vec s la vb) (\<lambda>s1.
               store_vec s1 lb tmp)))))"

text \<open>
  The element type of a vector, \<^verbatim>\<open>wasm_<name>_t ptr_or_none\<close>: the cell an array of such
  elements makes, the elements of such a cell, what a slot of a fresh array holds, and
  the element whose bytes are all zero.
\<close>

record 'e array_of =
  arr_cell :: "'e list \<Rightarrow> cell"
  arr_elems :: "cell \<Rightarrow> 'e list option"
  arr_indet :: 'e
  arr_zero :: 'e

text \<open>\<^verbatim>\<open>wasm_<name>_t *\<close>: a fresh slot holds a pointer to nowhere.\<close>

definition ptr_elems :: "ptr array_of" where
  "ptr_elems = \<lparr>arr_cell = Ptr_array,
     arr_elems = (\<lambda>c. case c of Ptr_array ps \<Rightarrow> Some ps | _ \<Rightarrow> None),
     arr_indet = Some Wild, arr_zero = None\<rparr>"

text \<open>
  \<^verbatim>\<open>wasm_byte_t\<close>. A fresh slot holds some byte; the model takes zero (only a copy of a
  vector onto itself reads a slot before it is written).
\<close>

definition byte_elems :: "8 word array_of" where
  "byte_elems = \<lparr>arr_cell = Byte_array,
     arr_elems = (\<lambda>c. case c of Byte_array bs \<Rightarrow> Some bs | _ \<Rightarrow> None),
     arr_indet = 0, arr_zero = 0\<rparr>"

text \<open>The array a pointer to its first element leads to, with its address.\<close>

definition load_array :: "'e array_of \<Rightarrow> state \<Rightarrow> ptr \<Rightarrow> fault + addr \<times> 'e list" where
  "load_array E s p =
     (case p of
        None \<Rightarrow> Inl Null_dereference
      | Some (At a) \<Rightarrow>
          (case cell_at s a of
             Some c \<Rightarrow>
               (case arr_elems E c of Some xs \<Rightarrow> Inr (a, xs) | None \<Rightarrow> Inl Invalid_pointer)
           | None \<Rightarrow> Inl Invalid_pointer)
      | Some _ \<Rightarrow> Inl Invalid_pointer)"

text \<open>\<^verbatim>\<open>p[i]\<close> read and \<^verbatim>\<open>p[i] = x\<close>.\<close>

definition read_elem :: "'e array_of \<Rightarrow> state \<Rightarrow> ptr \<Rightarrow> nat \<Rightarrow> fault + 'e" where
  "read_elem E s p i =
     and_then (load_array E s p) (\<lambda>(a, xs).
     if i < length xs then Inr (xs ! i) else Inl Out_of_bounds)"

definition write_elem :: "'e array_of \<Rightarrow> state \<Rightarrow> ptr \<Rightarrow> nat \<Rightarrow> 'e \<Rightarrow> fault + state" where
  "write_elem E s p i x =
     and_then (load_array E s p) (\<lambda>(a, xs).
     if i < length xs then Inr (put_cell s a (arr_cell E (xs[i := x])))
     else Inl Out_of_bounds)"

text \<open>\<^verbatim>\<open>new (std::nothrow) T[n]\<close>: null, or a fresh array whose slots are not yet assigned.\<close>

definition new_array :: "'e array_of \<Rightarrow> state \<Rightarrow> nat \<Rightarrow> ptr \<times> state" where
  "new_array E s n =
     (case nothrow_alloc s of
        (False, s1) \<Rightarrow> (None, s1)
      | (True, s1) \<Rightarrow>
          (case place s1 (arr_cell E (replicate n (arr_indet E))) of
             (a, s2) \<Rightarrow> (Some (At a), s2)))"

text \<open>\<^verbatim>\<open>delete[] p\<close>: nothing for a null pointer.\<close>

definition delete_array :: "'e array_of \<Rightarrow> state \<Rightarrow> ptr \<Rightarrow> fault + state" where
  "delete_array E s p =
     (case p of
        None \<Rightarrow> Inr s
      | Some _ \<Rightarrow> and_then (load_array E s p) (\<lambda>(a, xs). Inr (release s a)))"

text \<open>\<^verbatim>\<open>std::memset(p, 0, sizeof(T) * n)\<close>.\<close>

definition memset_zero :: "'e array_of \<Rightarrow> state \<Rightarrow> ptr \<Rightarrow> nat \<Rightarrow> fault + state" where
  "memset_zero E s p n =
     and_then (load_array E s p) (\<lambda>(a, xs).
     if n \<le> length xs
     then Inr (put_cell s a (arr_cell E (replicate n (arr_zero E) @ drop n xs)))
     else Inl Out_of_bounds)"

text \<open>
  \<^verbatim>\<open>std::copy_n(first, n, result)\<close>, with or without \<^verbatim>\<open>std::make_move_iterator\<close> around
  \<^verbatim>\<open>first\<close>: the elements are pointers or plain values, for which a move is a copy, and
  the source is not written.
\<close>

definition copy_n :: "'e array_of \<Rightarrow> state \<Rightarrow> ptr \<Rightarrow> nat \<Rightarrow> ptr \<Rightarrow> fault + state" where
  "copy_n E s first n result =
     and_then (load_array E s first) (\<lambda>(a, xs).
     if n \<le> length xs
     then and_then (load_array E s result) (\<lambda>(b, ys).
          if n \<le> length ys
          then Inr (put_cell s b (arr_cell E (take n xs @ drop n ys)))
          else Inl Out_of_bounds)
     else Inl Out_of_bounds)"

text \<open>\<^verbatim>\<open>for (size_t i = 0; i < n; i++) body\<close> runs \<open>body\<close> over \<open>[0..<n]\<close>.\<close>

primrec for_each ::
  "(nat \<Rightarrow> state \<Rightarrow> fault + state) \<Rightarrow> nat list \<Rightarrow> state \<Rightarrow> fault + state" where
  "for_each body [] s = Inr s"
| "for_each body (i # is) s = and_then (body i s) (for_each body is)"

subsection \<open>\<^verbatim>\<open>WASM_DECLARE_VEC_COMMON_IMPL(name, ptr_or_none)\<close>\<close>

text \<open>\<^verbatim>\<open>wasm_<name>_vec_new_empty(out)\<close>.\<close>

definition vec_new_empty :: "state \<Rightarrow> ptr \<Rightarrow> fault + state" where
  "vec_new_empty s out =
     (case out of
        None \<Rightarrow> Inr s
      | Some l \<Rightarrow>
          and_then (set_vec_size s l 0) (\<lambda>s1.
          set_vec_data s1 l None))"

text \<open>\<^verbatim>\<open>wasm_<name>_vec_new_uninitialized(out, size)\<close>.\<close>

definition vec_new_uninitialized ::
  "'e array_of \<Rightarrow> state \<Rightarrow> ptr \<Rightarrow> nat \<Rightarrow> fault + state" where
  "vec_new_uninitialized E s out sz =
     (case out of
        None \<Rightarrow> Inr s
      | Some l \<Rightarrow>
          and_then (set_vec_size s l sz) (\<lambda>s1.
          and_then (set_vec_data s1 l None) (\<lambda>s2.
          if sz > 0
          then (case new_array E s2 sz of (p, s3) \<Rightarrow>
                and_then (set_vec_data s3 l p) (\<lambda>s4.
                and_then (load_vec s4 l) (\<lambda>v.
                memset_zero E s4 (vec_data v) sz)))
          else Inr s2)))"

text \<open>\<^verbatim>\<open>wasm_<name>_vec_new(out, size, vals)\<close>.\<close>

definition vec_new :: "'e array_of \<Rightarrow> state \<Rightarrow> ptr \<Rightarrow> nat \<Rightarrow> ptr \<Rightarrow> fault + state" where
  "vec_new E s out sz vals =
     (case out of
        None \<Rightarrow> Inr s
      | Some l \<Rightarrow>
          and_then (set_vec_size s l sz) (\<lambda>s1.
          and_then (set_vec_data s1 l None) (\<lambda>s2.
          if sz > 0
          then (case new_array E s2 sz of (p, s3) \<Rightarrow>
                and_then (set_vec_data s3 l p) (\<lambda>s4.
                and_then (load_vec s4 l) (\<lambda>v.
                copy_n E s4 vals sz (vec_data v))))
          else Inr s2)))"

subsection \<open>\<^verbatim>\<open>WASM_DECLARE_VEC_PTR_IMPL(name)\<close>\<close>

text \<open>
  \<^verbatim>\<open>wasm_<name>_vec_copy(out, in)\<close> for a vector of pointers, given \<^verbatim>\<open>wasm_<name>_copy\<close>.
  The loop reads its bound \<^verbatim>\<open>in->size\<close> on entry (nothing in the loop writes a size);
  each round reads \<^verbatim>\<open>in->data[i]\<close>, calls the copy, and writes \<^verbatim>\<open>out->data[i]\<close>.
\<close>

definition vec_copy_ptr ::
  "(state \<Rightarrow> ptr \<Rightarrow> fault + ptr \<times> state) \<Rightarrow> state \<Rightarrow> ptr \<Rightarrow> ptr \<Rightarrow> fault + state" where
  "vec_copy_ptr elem_copy s out inp =
     (case inp of
        None \<Rightarrow> Inr s
      | Some li \<Rightarrow>
          (case out of
             None \<Rightarrow> Inr s
           | Some lo \<Rightarrow>
               and_then (load_vec s li) (\<lambda>vin.
               and_then (set_vec_size s lo (vec_size vin)) (\<lambda>s1.
               and_then (set_vec_data s1 lo None) (\<lambda>s2.
               and_then (load_vec s2 li) (\<lambda>vin2.
               if vec_size vin2 > 0
               then (case new_array ptr_elems s2 (vec_size vin2) of (p, s3) \<Rightarrow>
                     and_then (set_vec_data s3 lo p) (\<lambda>s4.
                     and_then (load_vec s4 li) (\<lambda>vin4.
                     for_each
                       (\<lambda>i t.
                          and_then (load_vec t li) (\<lambda>vi.
                          and_then (read_elem ptr_elems t (vec_data vi) i) (\<lambda>x.
                          and_then (elem_copy t x) (\<lambda>(y, t1).
                          and_then (load_vec t1 lo) (\<lambda>vo.
                          write_elem ptr_elems t1 (vec_data vo) i y)))))
                       [0..<vec_size vin4] s4)))
               else Inr s2))))))"

text \<open>
  \<^verbatim>\<open>wasm_<name>_vec_delete(vec)\<close> for a vector of pointers, given \<^verbatim>\<open>wasm_<name>_delete\<close>.
\<close>

definition vec_delete_ptr ::
  "(state \<Rightarrow> ptr \<Rightarrow> fault + state) \<Rightarrow> state \<Rightarrow> ptr \<Rightarrow> fault + state" where
  "vec_delete_ptr elem_delete s vec =
     (case vec of
        None \<Rightarrow> Inr s
      | Some l \<Rightarrow>
          and_then (load_vec s l) (\<lambda>v.
          and_then
            (if vec_size v > 0
             then and_then
                    (for_each
                       (\<lambda>i t.
                          and_then (load_vec t l) (\<lambda>vi.
                          and_then (read_elem ptr_elems t (vec_data vi) i) (\<lambda>x.
                          elem_delete t x)))
                       [0..<vec_size v] s) (\<lambda>s1.
                  and_then (load_vec s1 l) (\<lambda>v1.
                  delete_array ptr_elems s1 (vec_data v1)))
             else Inr s) (\<lambda>s2.
          and_then (set_vec_size s2 l 0) (\<lambda>s3.
          set_vec_data s3 l None))))"

subsection \<open>\<^verbatim>\<open>WASM_DECLARE_VEC_SCALAR_IMPL(name)\<close>\<close>

text \<open>\<^verbatim>\<open>wasm_<name>_vec_copy(out, in)\<close> for a vector of plain values.\<close>

definition vec_copy_scalar :: "'e array_of \<Rightarrow> state \<Rightarrow> ptr \<Rightarrow> ptr \<Rightarrow> fault + state" where
  "vec_copy_scalar E s out inp =
     (case inp of
        None \<Rightarrow> Inr s
      | Some li \<Rightarrow>
          (case out of
             None \<Rightarrow> Inr s
           | Some lo \<Rightarrow>
               and_then (load_vec s li) (\<lambda>vin.
               and_then (set_vec_size s lo (vec_size vin)) (\<lambda>s1.
               and_then (load_vec s1 li) (\<lambda>vin1.
               if vec_size vin1 > 0
               then (case new_array E s1 (vec_size vin1) of (p, s2) \<Rightarrow>
                     and_then (set_vec_data s2 lo p) (\<lambda>s3.
                     and_then (load_vec s3 li) (\<lambda>vin3.
                     and_then (load_vec s3 lo) (\<lambda>vout3.
                     copy_n E s3 (vec_data vin3) (vec_size vin3) (vec_data vout3)))))
               else Inr s1)))))"

text \<open>\<^verbatim>\<open>wasm_<name>_vec_delete(vec)\<close> for a vector of plain values.\<close>

definition vec_delete_scalar :: "'e array_of \<Rightarrow> state \<Rightarrow> ptr \<Rightarrow> fault + state" where
  "vec_delete_scalar E s vec =
     (case vec of
        None \<Rightarrow> Inr s
      | Some l \<Rightarrow>
          and_then (load_vec s l) (\<lambda>v.
          and_then
            (if vec_size v > 0 then delete_array E s (vec_data v) else Inr s) (\<lambda>s1.
          and_then (set_vec_size s1 l 0) (\<lambda>s2.
          set_vec_data s2 l None))))"

subsection \<open>The instances for bytes and for value types\<close>

text \<open>\<^verbatim>\<open>WASM_DECLARE_VEC_SCALAR_IMPL(byte)\<close>.\<close>

definition wasm_byte_vec_new_empty :: "state \<Rightarrow> ptr \<Rightarrow> fault + state" where
  "wasm_byte_vec_new_empty = vec_new_empty"

definition wasm_byte_vec_new_uninitialized :: "state \<Rightarrow> ptr \<Rightarrow> nat \<Rightarrow> fault + state" where
  "wasm_byte_vec_new_uninitialized = vec_new_uninitialized byte_elems"

definition wasm_byte_vec_new :: "state \<Rightarrow> ptr \<Rightarrow> nat \<Rightarrow> ptr \<Rightarrow> fault + state" where
  "wasm_byte_vec_new = vec_new byte_elems"

definition wasm_byte_vec_copy :: "state \<Rightarrow> ptr \<Rightarrow> ptr \<Rightarrow> fault + state" where
  "wasm_byte_vec_copy = vec_copy_scalar byte_elems"

definition wasm_byte_vec_delete :: "state \<Rightarrow> ptr \<Rightarrow> fault + state" where
  "wasm_byte_vec_delete = vec_delete_scalar byte_elems"

text \<open>The vector part of \<^verbatim>\<open>WASM_DECLARE_TYPE_IMPL(valtype)\<close>.\<close>

definition wasm_valtype_vec_new_empty :: "state \<Rightarrow> ptr \<Rightarrow> fault + state" where
  "wasm_valtype_vec_new_empty = vec_new_empty"

definition wasm_valtype_vec_new_uninitialized :: "state \<Rightarrow> ptr \<Rightarrow> nat \<Rightarrow> fault + state" where
  "wasm_valtype_vec_new_uninitialized = vec_new_uninitialized ptr_elems"

definition wasm_valtype_vec_new :: "state \<Rightarrow> ptr \<Rightarrow> nat \<Rightarrow> ptr \<Rightarrow> fault + state" where
  "wasm_valtype_vec_new = vec_new ptr_elems"

definition wasm_valtype_vec_copy :: "state \<Rightarrow> ptr \<Rightarrow> ptr \<Rightarrow> fault + state" where
  "wasm_valtype_vec_copy = vec_copy_ptr wasm_valtype_copy"

definition wasm_valtype_vec_delete :: "state \<Rightarrow> ptr \<Rightarrow> fault + state" where
  "wasm_valtype_vec_delete = vec_delete_ptr wasm_valtype_delete"

section \<open>Function types\<close>

text \<open>
  \<^verbatim>\<open>wasm_functype_t(own wasm_valtype_vec_t *vp, own wasm_valtype_vec_t *vr)\<close>
  \<^verbatim>\<open>: wasm_externtype_t(WASM_EXTERN_FUNC)\<close>
  \<^verbatim>\<open>{ std::swap(params, *vp); std::swap(results, *vr); }\<close>. The members \<^verbatim>\<open>params\<close> and
  \<^verbatim>\<open>results\<close> have no initialiser: they start with what their storage held.
\<close>

definition wasm_functype_t_init :: "addr \<Rightarrow> state \<Rightarrow> fault + cell" where
  "wasm_functype_t_init this s =
     Inr (FuncType_obj WASM_EXTERN_FUNC (uninit s (Params_of this)) (uninit s (Results_of this)))"

definition wasm_functype_t_body :: "ptr \<Rightarrow> ptr \<Rightarrow> addr \<Rightarrow> state \<Rightarrow> fault + state" where
  "wasm_functype_t_body vp vr this s =
     and_then (swap_vec s (Some (Params_of this)) vp) (\<lambda>s1.
     swap_vec s1 (Some (Results_of this)) vr)"

text \<open>
  \<^verbatim>\<open>wasm_functype_t(const wasm_functype_t *functype)\<close>
  \<^verbatim>\<open>: wasm_externtype_t(WASM_EXTERN_FUNC)\<close>
  \<^verbatim>\<open>{ wasm_valtype_vec_copy(&params, &(functype->params));\<close>
  \<^verbatim>\<open>wasm_valtype_vec_copy(&results, &(functype->results)); }\<close>.
\<close>

definition member_params :: "ptr \<Rightarrow> fault + ptr" where
  "member_params functype =
     (case functype of
        None \<Rightarrow> Inl Null_dereference
      | Some (At a) \<Rightarrow> Inr (Some (Params_of a))
      | Some _ \<Rightarrow> Inl Invalid_pointer)"

definition member_results :: "ptr \<Rightarrow> fault + ptr" where
  "member_results functype =
     (case functype of
        None \<Rightarrow> Inl Null_dereference
      | Some (At a) \<Rightarrow> Inr (Some (Results_of a))
      | Some _ \<Rightarrow> Inl Invalid_pointer)"

definition wasm_functype_t_copy_body :: "ptr \<Rightarrow> addr \<Rightarrow> state \<Rightarrow> fault + state" where
  "wasm_functype_t_copy_body functype this s =
     and_then (member_params functype) (\<lambda>fp.
     and_then (wasm_valtype_vec_copy s (Some (Params_of this)) fp) (\<lambda>s1.
     and_then (member_results functype) (\<lambda>fr.
     wasm_valtype_vec_copy s1 (Some (Results_of this)) fr)))"

definition wasm_functype_t_copy :: "state \<Rightarrow> loc \<Rightarrow> fault + ptr \<times> state" where
  "wasm_functype_t_copy s this =
     new_nothrow s wasm_functype_t_init (wasm_functype_t_copy_body (Some this))"

text \<open>
  \<^verbatim>\<open>delete\<close> of a \<^verbatim>\<open>wasm_functype_t *\<close>: the destructor
  \<^verbatim>\<open>{ wasm_valtype_vec_delete(&params); wasm_valtype_vec_delete(&results); }\<close>, then the
  storage is released.
\<close>

definition delete_functype :: "state \<Rightarrow> ptr \<Rightarrow> fault + state" where
  "delete_functype s p =
     (case p of
        None \<Rightarrow> Inr s
      | Some (At a) \<Rightarrow>
          (case cell_at s a of
             Some (FuncType_obj _ _ _) \<Rightarrow>
               and_then (wasm_valtype_vec_delete s (Some (Params_of a))) (\<lambda>s1.
               and_then (wasm_valtype_vec_delete s1 (Some (Results_of a))) (\<lambda>s2.
               Inr (release s2 a)))
           | _ \<Rightarrow> Inl Invalid_pointer)
      | Some _ \<Rightarrow> Inl Invalid_pointer)"

text \<open>\<^verbatim>\<open>wasm_functype_t::destroy()\<close>: \<^verbatim>\<open>delete this\<close>.\<close>

definition wasm_functype_t_destroy :: "state \<Rightarrow> loc \<Rightarrow> fault + state" where
  "wasm_functype_t_destroy s this = delete_functype s (Some this)"

definition wasm_functype_delete :: "state \<Rightarrow> ptr \<Rightarrow> fault + state" where
  "wasm_functype_delete = WASM_DECLARE_OWN_IMPL wasm_functype_t_destroy"

definition wasm_functype_copy :: "state \<Rightarrow> ptr \<Rightarrow> fault + ptr \<times> state" where
  "wasm_functype_copy = WASM_DECLARE_COPY_IMPL wasm_functype_t_copy"

text \<open>
  \<^verbatim>\<open>wasm_functype_new(params, results)\<close>:
  \<^verbatim>\<open>new (std::nothrow) wasm_functype_t(params, results)\<close>.
\<close>

definition wasm_functype_new :: "state \<Rightarrow> ptr \<Rightarrow> ptr \<Rightarrow> fault + ptr \<times> state" where
  "wasm_functype_new s params results =
     new_nothrow s wasm_functype_t_init (wasm_functype_t_body params results)"

text \<open>
  \<^verbatim>\<open>wasm_functype_params(functype)\<close>: \<^verbatim>\<open>WASM_STRUCT_GET_ATTR(functype, params, nullptr, &)\<close>,
  and the same for \<^verbatim>\<open>results\<close>.
\<close>

definition wasm_functype_params :: "ptr \<Rightarrow> fault + ptr" where
  "wasm_functype_params functype =
     WASM_STRUCT_GET_ATTR functype (\<lambda>l. member_params (Some l)) (Inr None)"

definition wasm_functype_results :: "ptr \<Rightarrow> fault + ptr" where
  "wasm_functype_results functype =
     WASM_STRUCT_GET_ATTR functype (\<lambda>l. member_results (Some l)) (Inr None)"

section \<open>Extern types\<close>

text \<open>\<^verbatim>\<open>kind\<close> of the \<^verbatim>\<open>wasm_externtype_t\<close> base of an object.\<close>

definition externtype_kind_at :: "state \<Rightarrow> loc \<Rightarrow> fault + wasm_externkind" where
  "externtype_kind_at s l =
     (case l of
        At a \<Rightarrow>
          (case cell_at s a of
             Some (FuncType_obj k _ _) \<Rightarrow> Inr k
           | Some (GlobalType_obj k _ _) \<Rightarrow> Inr k
           | Some (TableType_obj k _ _) \<Rightarrow> Inr k
           | Some (MemoryType_obj k _) \<Rightarrow> Inr k
           | _ \<Rightarrow> Inl Invalid_pointer)
      | _ \<Rightarrow> Inl Invalid_pointer)"

text \<open>
  \<^verbatim>\<open>wasm_externtype_t::copy()\<close>: a \<^verbatim>\<open>switch\<close> on \<^verbatim>\<open>kind\<close> that copy-constructs the variant
  the kind names, with \<^verbatim>\<open>__builtin_unreachable()\<close> under \<^verbatim>\<open>default\<close>.
\<close>

definition wasm_externtype_t_copy :: "state \<Rightarrow> loc \<Rightarrow> fault + ptr \<times> state" where
  "wasm_externtype_t_copy s this =
     and_then (externtype_kind_at s this) (\<lambda>kind.
     case kind of
       WASM_EXTERN_FUNC \<Rightarrow>
         new_nothrow s wasm_functype_t_init
           (wasm_functype_t_copy_body (wasm_externtype_as_functype_const (Some this)))
     | WASM_EXTERN_GLOBAL \<Rightarrow>
         new_nothrow s
           (wasm_globaltype_t_copy_init (wasm_externtype_as_globaltype_const (Some this)))
           no_body
     | WASM_EXTERN_TABLE \<Rightarrow>
         new_nothrow s
           (wasm_tabletype_t_copy_init (wasm_externtype_as_tabletype_const (Some this)))
           no_body
     | WASM_EXTERN_MEMORY \<Rightarrow>
         new_nothrow s
           (wasm_memorytype_t_copy_init (wasm_externtype_as_memorytype_const (Some this)))
           no_body
     | EXTERNKIND_other _ \<Rightarrow> Inl Unreachable)"

text \<open>\<^verbatim>\<open>delete p\<close> for the variants with a trivial destructor.\<close>

definition delete_variant :: "(cell \<Rightarrow> bool) \<Rightarrow> state \<Rightarrow> ptr \<Rightarrow> fault + state" where
  "delete_variant is_T s p = (case p of None \<Rightarrow> Inr s | Some l \<Rightarrow> delete_obj is_T s l)"

text \<open>
  \<^verbatim>\<open>wasm_externtype_t::destroy()\<close>: a \<^verbatim>\<open>switch\<close> on \<^verbatim>\<open>kind\<close> that deletes \<^verbatim>\<open>this\<close> as the
  variant the kind names, with \<^verbatim>\<open>__builtin_unreachable()\<close> under \<^verbatim>\<open>default\<close>.
\<close>

definition wasm_externtype_t_destroy :: "state \<Rightarrow> loc \<Rightarrow> fault + state" where
  "wasm_externtype_t_destroy s this =
     and_then (externtype_kind_at s this) (\<lambda>kind.
     case kind of
       WASM_EXTERN_FUNC \<Rightarrow> delete_functype s (wasm_externtype_as_functype (Some this))
     | WASM_EXTERN_GLOBAL \<Rightarrow>
         delete_variant is_globaltype s (wasm_externtype_as_globaltype (Some this))
     | WASM_EXTERN_TABLE \<Rightarrow>
         delete_variant is_tabletype s (wasm_externtype_as_tabletype (Some this))
     | WASM_EXTERN_MEMORY \<Rightarrow>
         delete_variant is_memorytype s (wasm_externtype_as_memorytype (Some this))
     | EXTERNKIND_other _ \<Rightarrow> Inl Unreachable)"

text \<open>\<^verbatim>\<open>WASM_DECLARE_TYPE_IMPL(externtype)\<close>: delete and copy.\<close>

definition wasm_externtype_delete :: "state \<Rightarrow> ptr \<Rightarrow> fault + state" where
  "wasm_externtype_delete = WASM_DECLARE_OWN_IMPL wasm_externtype_t_destroy"

definition wasm_externtype_copy :: "state \<Rightarrow> ptr \<Rightarrow> fault + ptr \<times> state" where
  "wasm_externtype_copy = WASM_DECLARE_COPY_IMPL wasm_externtype_t_copy"

text \<open>
  \<^verbatim>\<open>wasm_externtype_kind(externtype)\<close>:
  \<^verbatim>\<open>WASM_STRUCT_GET_ATTR(externtype, kind, WASM_EXTERN_FUNC, )\<close>.
\<close>

definition wasm_externtype_kind :: "state \<Rightarrow> ptr \<Rightarrow> fault + wasm_externkind" where
  "wasm_externtype_kind s externtype =
     WASM_STRUCT_GET_ATTR externtype (externtype_kind_at s) (Inr WASM_EXTERN_FUNC)"

section \<open>Import and export types\<close>

text \<open>
  Modelled from the spec: \<^verbatim>\<open>wasm_name_t\<close>, \<^verbatim>\<open>wasm_name_copy\<close> and \<^verbatim>\<open>wasm_name_delete\<close> are
  declared in the missing \<^verbatim>\<open>wasm/wasm.h\<close>. The spec has an import or export type own its name
  buffers, and the code keeps them in members that are vectors; a name is a vector of
  bytes, and its copy and delete are those of \<^verbatim>\<open>WASM_DECLARE_VEC_SCALAR_IMPL(byte)\<close>.
\<close>

definition wasm_name_copy :: "state \<Rightarrow> ptr \<Rightarrow> ptr \<Rightarrow> fault + state" where
  "wasm_name_copy = wasm_byte_vec_copy"

definition wasm_name_delete :: "state \<Rightarrow> ptr \<Rightarrow> fault + state" where
  "wasm_name_delete = wasm_byte_vec_delete"

text \<open>\<^verbatim>\<open>&(p->modname)\<close> and \<^verbatim>\<open>&(p->name)\<close>.\<close>

definition member_modname :: "ptr \<Rightarrow> fault + ptr" where
  "member_modname p =
     (case p of
        None \<Rightarrow> Inl Null_dereference
      | Some (At a) \<Rightarrow> Inr (Some (Modname_of a))
      | Some _ \<Rightarrow> Inl Invalid_pointer)"

definition member_name :: "ptr \<Rightarrow> fault + ptr" where
  "member_name p =
     (case p of
        None \<Rightarrow> Inl Null_dereference
      | Some (At a) \<Rightarrow> Inr (Some (Name_of a))
      | Some _ \<Rightarrow> Inl Invalid_pointer)"

text \<open>\<^verbatim>\<open>p->type\<close> read, and \<^verbatim>\<open>type = t\<close> in the object at \<open>this\<close>.\<close>

definition member_type :: "state \<Rightarrow> ptr \<Rightarrow> fault + ptr" where
  "member_type s p =
     (case p of
        None \<Rightarrow> Inl Null_dereference
      | Some (At a) \<Rightarrow>
          (case cell_at s a of
             Some (ImportType_obj m n t) \<Rightarrow> Inr t
           | Some (ExportType_obj n t) \<Rightarrow> Inr t
           | _ \<Rightarrow> Inl Invalid_pointer)
      | Some _ \<Rightarrow> Inl Invalid_pointer)"

definition set_member_type :: "state \<Rightarrow> addr \<Rightarrow> ptr \<Rightarrow> fault + state" where
  "set_member_type s this t =
     (case cell_at s this of
        Some (ImportType_obj m n _) \<Rightarrow> Inr (put_cell s this (ImportType_obj m n t))
      | Some (ExportType_obj n _) \<Rightarrow> Inr (put_cell s this (ExportType_obj n t))
      | _ \<Rightarrow> Inl Invalid_pointer)"

text \<open>
  \<^verbatim>\<open>wasm_importtype_t(own wasm_name_t *mod, own wasm_name_t *n,\<close>
  \<^verbatim>\<open>own wasm_externtype_t *externtype)\<close>
  \<^verbatim>\<open>{ std::swap(modname, *mod); std::swap(name, *n); type = externtype; }\<close>. No member has
  an initialiser: the vectors start with what their storage held, the pointer leads
  nowhere.
\<close>

definition wasm_importtype_t_init :: "addr \<Rightarrow> state \<Rightarrow> fault + cell" where
  "wasm_importtype_t_init this s =
     Inr (ImportType_obj (uninit s (Modname_of this)) (uninit s (Name_of this)) (Some Wild))"

definition wasm_importtype_t_body ::
  "ptr \<Rightarrow> ptr \<Rightarrow> ptr \<Rightarrow> addr \<Rightarrow> state \<Rightarrow> fault + state" where
  "wasm_importtype_t_body modn n externtype this s =
     and_then (swap_vec s (Some (Modname_of this)) modn) (\<lambda>s1.
     and_then (swap_vec s1 (Some (Name_of this)) n) (\<lambda>s2.
     set_member_type s2 this externtype))"

text \<open>
  \<^verbatim>\<open>wasm_importtype_t(const wasm_importtype_t *importtype)\<close>
  \<^verbatim>\<open>{ wasm_name_copy(&modname, &(importtype->modname));\<close>
  \<^verbatim>\<open>wasm_name_copy(&name, &(importtype->name));\<close>
  \<^verbatim>\<open>type = wasm_externtype_copy(importtype->type); }\<close>.
\<close>

definition wasm_importtype_t_copy_body :: "ptr \<Rightarrow> addr \<Rightarrow> state \<Rightarrow> fault + state" where
  "wasm_importtype_t_copy_body importtype this s =
     and_then (member_modname importtype) (\<lambda>im.
     and_then (wasm_name_copy s (Some (Modname_of this)) im) (\<lambda>s1.
     and_then (member_name importtype) (\<lambda>inm.
     and_then (wasm_name_copy s1 (Some (Name_of this)) inm) (\<lambda>s2.
     and_then (member_type s2 importtype) (\<lambda>t.
     and_then (wasm_externtype_copy s2 t) (\<lambda>(t', s3).
     set_member_type s3 this t'))))))"

definition wasm_importtype_t_copy :: "state \<Rightarrow> loc \<Rightarrow> fault + ptr \<times> state" where
  "wasm_importtype_t_copy s this =
     new_nothrow s wasm_importtype_t_init (wasm_importtype_t_copy_body (Some this))"

text \<open>
  \<^verbatim>\<open>wasm_importtype_t::destroy()\<close>: \<^verbatim>\<open>delete this\<close>, which runs the destructor
  \<^verbatim>\<open>{ wasm_name_delete(&modname); wasm_name_delete(&name); wasm_externtype_delete(type); }\<close>
  and releases the storage.
\<close>

definition wasm_importtype_t_destroy :: "state \<Rightarrow> loc \<Rightarrow> fault + state" where
  "wasm_importtype_t_destroy s this =
     (case this of
        At a \<Rightarrow>
          (case cell_at s a of
             Some (ImportType_obj _ _ _) \<Rightarrow>
               and_then (wasm_name_delete s (Some (Modname_of a))) (\<lambda>s1.
               and_then (wasm_name_delete s1 (Some (Name_of a))) (\<lambda>s2.
               and_then (member_type s2 (Some (At a))) (\<lambda>t.
               and_then (wasm_externtype_delete s2 t) (\<lambda>s3.
               Inr (release s3 a)))))
           | _ \<Rightarrow> Inl Invalid_pointer)
      | _ \<Rightarrow> Inl Invalid_pointer)"

text \<open>\<^verbatim>\<open>WASM_DECLARE_TYPE_IMPL(importtype)\<close>: delete and copy.\<close>

definition wasm_importtype_delete :: "state \<Rightarrow> ptr \<Rightarrow> fault + state" where
  "wasm_importtype_delete = WASM_DECLARE_OWN_IMPL wasm_importtype_t_destroy"

definition wasm_importtype_copy :: "state \<Rightarrow> ptr \<Rightarrow> fault + ptr \<times> state" where
  "wasm_importtype_copy = WASM_DECLARE_COPY_IMPL wasm_importtype_t_copy"

text \<open>
  \<^verbatim>\<open>wasm_importtype_new(module, name, externtype)\<close>:
  \<^verbatim>\<open>new (std::nothrow) wasm_importtype_t(module, name, externtype)\<close>.
\<close>

definition wasm_importtype_new :: "state \<Rightarrow> ptr \<Rightarrow> ptr \<Rightarrow> ptr \<Rightarrow> fault + ptr \<times> state" where
  "wasm_importtype_new s module name externtype =
     new_nothrow s wasm_importtype_t_init (wasm_importtype_t_body module name externtype)"

text \<open>
  \<^verbatim>\<open>wasm_exporttype_t(own wasm_name_t *n, own wasm_externtype_t *externtype)\<close>
  \<^verbatim>\<open>{ std::swap(name, *n); type = externtype; }\<close>.
\<close>

definition wasm_exporttype_t_init :: "addr \<Rightarrow> state \<Rightarrow> fault + cell" where
  "wasm_exporttype_t_init this s = Inr (ExportType_obj (uninit s (Name_of this)) (Some Wild))"

definition wasm_exporttype_t_body :: "ptr \<Rightarrow> ptr \<Rightarrow> addr \<Rightarrow> state \<Rightarrow> fault + state" where
  "wasm_exporttype_t_body n externtype this s =
     and_then (swap_vec s (Some (Name_of this)) n) (\<lambda>s1.
     set_member_type s1 this externtype)"

text \<open>
  \<^verbatim>\<open>wasm_exporttype_t(const wasm_exporttype_t *exporttype)\<close>
  \<^verbatim>\<open>{ wasm_name_copy(&name, &(exporttype->name));\<close>
  \<^verbatim>\<open>type = wasm_externtype_copy(exporttype->type); }\<close>.
\<close>

definition wasm_exporttype_t_copy_body :: "ptr \<Rightarrow> addr \<Rightarrow> state \<Rightarrow> fault + state" where
  "wasm_exporttype_t_copy_body exporttype this s =
     and_then (member_name exporttype) (\<lambda>en.
     and_then (wasm_name_copy s (Some (Name_of this)) en) (\<lambda>s1.
     and_then (member_type s1 exporttype) (\<lambda>t.
     and_then (wasm_externtype_copy s1 t) (\<lambda>(t', s2).
     set_member_type s2 this t'))))"

definition wasm_exporttype_t_copy :: "state \<Rightarrow> loc \<Rightarrow> fault + ptr \<times> state" where
  "wasm_exporttype_t_copy s this =
     new_nothrow s wasm_exporttype_t_init (wasm_exporttype_t_copy_body (Some this))"

text \<open>
  \<^verbatim>\<open>wasm_exporttype_t::destroy()\<close>: \<^verbatim>\<open>delete this\<close>, which runs the destructor
  \<^verbatim>\<open>{ wasm_name_delete(&name); wasm_externtype_delete(type); }\<close> and releases the storage.
\<close>

definition wasm_exporttype_t_destroy :: "state \<Rightarrow> loc \<Rightarrow> fault + state" where
  "wasm_exporttype_t_destroy s this =
     (case this of
        At a \<Rightarrow>
          (case cell_at s a of
             Some (ExportType_obj _ _) \<Rightarrow>
               and_then (wasm_name_delete s (Some (Name_of a))) (\<lambda>s1.
               and_then (member_type s1 (Some (At a))) (\<lambda>t.
               and_then (wasm_externtype_delete s1 t) (\<lambda>s2.
               Inr (release s2 a))))
           | _ \<Rightarrow> Inl Invalid_pointer)
      | _ \<Rightarrow> Inl Invalid_pointer)"

text \<open>\<^verbatim>\<open>WASM_DECLARE_TYPE_IMPL(exporttype)\<close>: delete and copy.\<close>

definition wasm_exporttype_delete :: "state \<Rightarrow> ptr \<Rightarrow> fault + state" where
  "wasm_exporttype_delete = WASM_DECLARE_OWN_IMPL wasm_exporttype_t_destroy"

definition wasm_exporttype_copy :: "state \<Rightarrow> ptr \<Rightarrow> fault + ptr \<times> state" where
  "wasm_exporttype_copy = WASM_DECLARE_COPY_IMPL wasm_exporttype_t_copy"

text \<open>
  \<^verbatim>\<open>wasm_exporttype_new(name, externtype)\<close>:
  \<^verbatim>\<open>new (std::nothrow) wasm_exporttype_t(name, externtype)\<close>.
\<close>

definition wasm_exporttype_new :: "state \<Rightarrow> ptr \<Rightarrow> ptr \<Rightarrow> fault + ptr \<times> state" where
  "wasm_exporttype_new s name externtype =
     new_nothrow s wasm_exporttype_t_init (wasm_exporttype_t_body name externtype)"

section \<open>Values\<close>

definition load_val :: "state \<Rightarrow> loc \<Rightarrow> fault + wasm_val" where
  "load_val s l =
     (case l of
        At a \<Rightarrow> (case cell_at s a of Some (Val_var v) \<Rightarrow> Inr v | _ \<Rightarrow> Inl Invalid_pointer)
      | _ \<Rightarrow> Inl Invalid_pointer)"

definition store_val :: "state \<Rightarrow> loc \<Rightarrow> wasm_val \<Rightarrow> fault + state" where
  "store_val s l v =
     (case l of
        At a \<Rightarrow>
          (case cell_at s a of
             Some (Val_var _) \<Rightarrow> Inr (put_cell s a (Val_var v))
           | _ \<Rightarrow> Inl Invalid_pointer)
      | _ \<Rightarrow> Inl Invalid_pointer)"

text \<open>
  \<^verbatim>\<open>(val->of).ref\<close> read. When the union holds the bits of a number, they do not name an
  object of the store.
\<close>

definition of_ref :: "wasm_val \<Rightarrow> fault + ptr" where
  "of_ref v = (case val_of v of Of_ref p \<Rightarrow> Inr p | Of_bits _ \<Rightarrow> Inl Invalid_pointer)"

text \<open>
  \<^verbatim>\<open>wasm_val_delete(val)\<close>. In the \<^verbatim>\<open>switch\<close> the label \<^verbatim>\<open>default\<close> stands with the four
  numeric kinds: \<^verbatim>\<open>(val->of).i64 = 0\<close>. The two reference kinds run
  \<^verbatim>\<open>wasm_ref_delete((val->of).ref); (val->of).ref = nullptr\<close>.
\<close>

definition wasm_val_delete :: "state \<Rightarrow> ptr \<Rightarrow> fault + state" where
  "wasm_val_delete s val =
     (case val of
        None \<Rightarrow> Inr s
      | Some l \<Rightarrow>
          and_then (load_val s l) (\<lambda>v.
          if val_kind v = WASM_ANYREF \<or> val_kind v = WASM_FUNCREF
          then and_then (of_ref v) (\<lambda>r.
               and_then (wasm_ref_delete s r) (\<lambda>s1.
               and_then (load_val s1 l) (\<lambda>v1.
               store_val s1 l (v1\<lparr>val_of := Of_ref None\<rparr>))))
          else store_val s l (v\<lparr>val_of := Of_bits 0\<rparr>)))"

text \<open>
  \<^verbatim>\<open>wasm_val_copy(out, val)\<close>: \<^verbatim>\<open>out->kind = val->kind\<close>, then a \<^verbatim>\<open>switch\<close> on \<^verbatim>\<open>out->kind\<close>
  where \<^verbatim>\<open>default\<close> again stands with the numeric kinds: \<^verbatim>\<open>out->of = val->of\<close>. The two
  reference kinds run \<^verbatim>\<open>(out->of).ref = wasm_ref_copy((val->of).ref)\<close>.
\<close>

definition wasm_val_copy :: "state \<Rightarrow> ptr \<Rightarrow> ptr \<Rightarrow> fault + state" where
  "wasm_val_copy s out val =
     (case out of
        None \<Rightarrow> Inr s
      | Some lo \<Rightarrow>
          (case val of
             None \<Rightarrow> Inr s
           | Some lv \<Rightarrow>
               and_then (load_val s lv) (\<lambda>v.
               and_then (load_val s lo) (\<lambda>ov.
               and_then (store_val s lo (ov\<lparr>val_kind := val_kind v\<rparr>)) (\<lambda>s1.
               and_then (load_val s1 lo) (\<lambda>ov1.
               if val_kind ov1 = WASM_ANYREF \<or> val_kind ov1 = WASM_FUNCREF
               then and_then (load_val s1 lv) (\<lambda>v1.
                    and_then (of_ref v1) (\<lambda>r.
                    and_then (wasm_ref_copy s1 r) (\<lambda>(r', s2).
                    and_then (load_val s2 lo) (\<lambda>ov2.
                    store_val s2 lo (ov2\<lparr>val_of := Of_ref r'\<rparr>)))))
               else and_then (load_val s1 lv) (\<lambda>v1.
                    store_val s1 lo (ov1\<lparr>val_of := val_of v1\<rparr>))))))))"

section \<open>Example states\<close>

definition no_vec :: wasm_vec where
  "no_vec = \<lparr>vec_size = 0, vec_data = None\<rparr>"

text \<open>An engine alone in the store.\<close>

definition s_engine :: state where
  "s_engine = \<lparr>heap = [Some (Engine_obj (Configure 7) (Configure 7))], plan = [],
     uninit = (\<lambda>_. no_vec), calls = []\<rparr>"

text \<open>
  Two references with the same host data and finalizer, a third with another finalizer,
  and the host data itself.
\<close>

definition s_refs :: state where
  "s_refs = \<lparr>heap = [Some (Ref_obj (Some (At 3)) (Some 42)),
                      Some (Ref_obj (Some (At 3)) (Some 42)),
                      Some (Ref_obj (Some (At 3)) (Some 43)),
                      Some (Host_data [1, 2, 3])],
     plan = [], uninit = (\<lambda>_. no_vec), calls = []\<rparr>"

text \<open>A value type and the limits \<^verbatim>\<open>{.min = 10, .max = 20}\<close> of the caller.\<close>

definition s_valtype :: state where
  "s_valtype = \<lparr>heap = [Some (ValType_obj WASM_I32),
                         Some (Limits_var \<lparr>limits_min = 10, limits_max = 20\<rparr>)],
     plan = [], uninit = (\<lambda>_. no_vec), calls = []\<rparr>"

text \<open>
  \<^verbatim>\<open>wasm_valtype_t *vals[1] = {wasm_valtype_new(WASM_I32)}; wasm_valtype_vec_t out;\<close>
\<close>

definition s_vec_new :: state where
  "s_vec_new = \<lparr>heap = [Some (ValType_obj WASM_I32), Some (Ptr_array [Some (At 0)]),
                         Some (Vec_var no_vec)],
     plan = [], uninit = (\<lambda>_. no_vec), calls = []\<rparr>"

text \<open>
  A vector of two value types, a vector of three bytes, and a value of kind
  \<^verbatim>\<open>WASM_ANYREF\<close> that holds a reference; then the same state after each of the three has
  been deleted.
\<close>

definition s_owned :: state where
  "s_owned = \<lparr>heap = [Some (ValType_obj WASM_I32), Some (ValType_obj WASM_I64),
                       Some (Ptr_array [Some (At 0), Some (At 1)]),
                       Some (Vec_var \<lparr>vec_size = 2, vec_data = Some (At 2)\<rparr>),
                       Some (Byte_array [1, 2, 3]),
                       Some (Vec_var \<lparr>vec_size = 3, vec_data = Some (At 4)\<rparr>),
                       Some (Ref_obj None None),
                       Some (Val_var \<lparr>val_kind = WASM_ANYREF, val_of = Of_ref (Some (At 6))\<rparr>)],
     plan = [], uninit = (\<lambda>_. no_vec), calls = []\<rparr>"

definition s_owned_valtypes_deleted :: state where
  "s_owned_valtypes_deleted = s_owned\<lparr>heap :=
     [None, None, None,
      Some (Vec_var \<lparr>vec_size = 0, vec_data = None\<rparr>),
      Some (Byte_array [1, 2, 3]),
      Some (Vec_var \<lparr>vec_size = 3, vec_data = Some (At 4)\<rparr>),
      Some (Ref_obj None None),
      Some (Val_var \<lparr>val_kind = WASM_ANYREF, val_of = Of_ref (Some (At 6))\<rparr>)]\<rparr>"

definition s_owned_bytes_deleted :: state where
  "s_owned_bytes_deleted = s_owned\<lparr>heap :=
     [Some (ValType_obj WASM_I32), Some (ValType_obj WASM_I64),
      Some (Ptr_array [Some (At 0), Some (At 1)]),
      Some (Vec_var \<lparr>vec_size = 2, vec_data = Some (At 2)\<rparr>),
      None,
      Some (Vec_var \<lparr>vec_size = 0, vec_data = None\<rparr>),
      Some (Ref_obj None None),
      Some (Val_var \<lparr>val_kind = WASM_ANYREF, val_of = Of_ref (Some (At 6))\<rparr>)]\<rparr>"

definition s_owned_val_deleted :: state where
  "s_owned_val_deleted = s_owned\<lparr>heap :=
     [Some (ValType_obj WASM_I32), Some (ValType_obj WASM_I64),
      Some (Ptr_array [Some (At 0), Some (At 1)]),
      Some (Vec_var \<lparr>vec_size = 2, vec_data = Some (At 2)\<rparr>),
      Some (Byte_array [1, 2, 3]),
      Some (Vec_var \<lparr>vec_size = 3, vec_data = Some (At 4)\<rparr>),
      None,
      Some (Val_var \<lparr>val_kind = WASM_ANYREF, val_of = Of_ref None\<rparr>)]\<rparr>"

text \<open>
  \<^verbatim>\<open>wasm_byte_vec_t in, out;\<close> before either is initialised: the storage of \<^verbatim>\<open>in\<close> (cell 0)
  and of \<^verbatim>\<open>out\<close> (cell 2) holds what was there, for \<^verbatim>\<open>out\<close> a size of three and a pointer
  that is not null.
\<close>

definition s_copy :: state where
  "s_copy = \<lparr>heap = [Some (Vec_var \<lparr>vec_size = 5, vec_data = Some Wild\<rparr>),
                      Some (Byte_array [1, 2, 3]),
                      Some (Vec_var \<lparr>vec_size = 3, vec_data = Some (At 1)\<rparr>)],
     plan = [], uninit = (\<lambda>_. no_vec), calls = []\<rparr>"

text \<open>
  A value whose kind is outside the enumeration, a value of kind \<^verbatim>\<open>WASM_I32\<close>, and a memory
  type whose \<^verbatim>\<open>kind\<close> has been overwritten with a byte outside the enumeration.
\<close>

definition s_val :: state where
  "s_val = \<lparr>heap = [Some (Val_var \<lparr>val_kind = VALKIND_other 7, val_of = Of_bits 5\<rparr>),
                     Some (Val_var \<lparr>val_kind = WASM_I32, val_of = Of_bits 0\<rparr>),
                     Some (MemoryType_obj (EXTERNKIND_other 9)
                       \<lparr>limits_min = 1, limits_max = 2\<rparr>)],
     plan = [], uninit = (\<lambda>_. no_vec), calls = []\<rparr>"

text \<open>
  The variables of a caller about to build a function type: the arrays
  \<^verbatim>\<open>wasm_valtype_t *ps[2], *rs[1];\<close> (cells 0 and 1) and the vectors
  \<^verbatim>\<open>wasm_valtype_vec_t params, results;\<close> (cells 2 and 3), none of them initialised.
\<close>

definition s_caller :: state where
  "s_caller = \<lparr>heap = [Some (Ptr_array [Some Wild, Some Wild]), Some (Ptr_array [Some Wild]),
                        Some (Vec_var \<lparr>vec_size = 7, vec_data = Some Wild\<rparr>),
                        Some (Vec_var \<lparr>vec_size = 7, vec_data = Some Wild\<rparr>)],
     plan = [], uninit = (\<lambda>_. no_vec), calls = []\<rparr>"

text \<open>
  The state that caller reaches (\<open>s_sig_built\<close> below) with the vectors
  \<open>params = [I32, I64]\<close> (cell 2, its array in cell 7) and \<open>results = [F32]\<close> (cell 3, its
  array in cell 8), and with two more value types, of kind \<^verbatim>\<open>WASM_I64\<close> and \<^verbatim>\<open>WASM_F32\<close>, for
  two global types.
\<close>

definition s_sig :: state where
  "s_sig = \<lparr>heap = [Some (Ptr_array [Some (At 4), Some (At 5)]), Some (Ptr_array [Some (At 6)]),
                     Some (Vec_var \<lparr>vec_size = 2, vec_data = Some (At 7)\<rparr>),
                     Some (Vec_var \<lparr>vec_size = 1, vec_data = Some (At 8)\<rparr>),
                     Some (ValType_obj WASM_I32), Some (ValType_obj WASM_I64),
                     Some (ValType_obj WASM_F32),
                     Some (Ptr_array [Some (At 4), Some (At 5)]),
                     Some (Ptr_array [Some (At 6)]),
                     Some (ValType_obj WASM_I64), Some (ValType_obj WASM_F32)],
     plan = [], uninit = (\<lambda>_. no_vec), calls = []\<rparr>"

text \<open>
  One live object of each type that \<^verbatim>\<open>wasm_<name>_delete\<close> takes by pointer: a
  configuration (cell 0), an engine (1), a store (2), a value type (3), a global type (4),
  a table type (5), a memory type (6), a reference (7), the function type \<open>[F32] \<rightarrow> []\<close>
  (cell 10, its parameter array in cell 9 and the value type in cell 8), a memory type held
  as an extern type (11), an import type \<open>module.global1\<close> of a global (cell 15, the
  extern type in cell 12, the names in cells 13 and 14) and an export type \<open>global1\<close> of a
  global (cell 18, the extern type in cell 16, the name in cell 17).
\<close>

definition s_handles :: state where
  "s_handles = \<lparr>heap =
     [Some (Config_obj (Configure 1)),
      Some (Engine_obj (Configure 1) (Configure 1)),
      Some (Store_obj (Some (At 1)) (Configure 1) (Configure 1)),
      Some (ValType_obj WASM_I32),
      Some (GlobalType_obj WASM_EXTERN_GLOBAL WASM_I64 WASM_VAR),
      Some (TableType_obj WASM_EXTERN_TABLE WASM_FUNCREF \<lparr>limits_min = 10, limits_max = 20\<rparr>),
      Some (MemoryType_obj WASM_EXTERN_MEMORY \<lparr>limits_min = 10, limits_max = 20\<rparr>),
      Some (Ref_obj None None),
      Some (ValType_obj WASM_F32),
      Some (Ptr_array [Some (At 8)]),
      Some (FuncType_obj WASM_EXTERN_FUNC \<lparr>vec_size = 1, vec_data = Some (At 9)\<rparr>
        \<lparr>vec_size = 0, vec_data = None\<rparr>),
      Some (MemoryType_obj WASM_EXTERN_MEMORY \<lparr>limits_min = 1, limits_max = 2\<rparr>),
      Some (GlobalType_obj WASM_EXTERN_GLOBAL WASM_I32 WASM_CONST),
      Some (Byte_array [109, 111, 100, 117, 108, 101]),
      Some (Byte_array [103, 108, 111, 98, 97, 108, 49]),
      Some (ImportType_obj \<lparr>vec_size = 6, vec_data = Some (At 13)\<rparr>
        \<lparr>vec_size = 7, vec_data = Some (At 14)\<rparr> (Some (At 12))),
      Some (GlobalType_obj WASM_EXTERN_GLOBAL WASM_I32 WASM_CONST),
      Some (Byte_array [103, 108, 111, 98, 97, 108, 49]),
      Some (ExportType_obj \<lparr>vec_size = 7, vec_data = Some (At 17)\<rparr> (Some (At 16)))],
     plan = [], uninit = (\<lambda>_. no_vec), calls = []\<rparr>"

section \<open>Facts about the store\<close>

lemma and_then_Inl [simp]: "and_then (Inl e) k = Inl e"
  by (simp add: and_then_def)

lemma and_then_Inr [simp]: "and_then (Inr x) k = k x"
  by (simp add: and_then_def)

lemma cell_at_release: "cell_at (release s a) b = (if b = a then None else cell_at s b)"
  by (simp add: cell_at_def release_def)

lemma cell_at_place:
  "cell_at (snd (place s c)) b = (if b = length (heap s) then Some c else cell_at s b)"
  by (auto simp: cell_at_def place_def nth_append)

lemma cell_at_put_cell:
  "cell_at (put_cell s a c) b = (if b = a \<and> a < length (heap s) then Some c else cell_at s b)"
  by (simp add: cell_at_def put_cell_def)

lemma cell_at_fresh: "cell_at s (length (heap s)) = None"
  by (simp add: cell_at_def)

lemma cell_at_less: "cell_at s a = Some c \<Longrightarrow> a < length (heap s)"
  by (simp add: cell_at_def split: if_splits)

lemma put_cell_same_state: "cell_at s a = Some c \<Longrightarrow> put_cell s a c = s"
  by (simp add: cell_at_def put_cell_def list_update_same_conv split: if_splits)

lemma put_cell_twice: "put_cell (put_cell s a c) a c' = put_cell s a c'"
  by (simp add: put_cell_def)

lemma heap_length_put_cell [simp]: "length (heap (put_cell s a c)) = length (heap s)"
  by (simp add: put_cell_def)

lemma plan_put_cell [simp]: "plan (put_cell s a c) = plan s"
  by (simp add: put_cell_def)

lemma plan_release [simp]: "plan (release s a) = plan s"
  by (simp add: release_def)

lemma heap_length_release [simp]: "length (heap (release s a)) = length (heap s)"
  by (simp add: release_def)

lemma fst_place [simp]: "fst (place s c) = length (heap s)"
  by (simp add: place_def)

lemma heap_place [simp]: "heap (snd (place s c)) = heap s @ [Some c]"
  by (simp add: place_def)

lemma plan_place [simp]: "plan (snd (place s c)) = plan s"
  by (simp add: place_def)

lemma nothrow_alloc_heap [simp]: "heap (snd (nothrow_alloc s)) = heap s"
  by (simp add: nothrow_alloc_def split: list.splits)

lemma nothrow_alloc_calls [simp]: "calls (snd (nothrow_alloc s)) = calls s"
  by (simp add: nothrow_alloc_def split: list.splits)

lemma nothrow_alloc_uninit [simp]: "uninit (snd (nothrow_alloc s)) = uninit s"
  by (simp add: nothrow_alloc_def split: list.splits)

lemma cell_at_nothrow_alloc [simp]: "cell_at (snd (nothrow_alloc s)) b = cell_at s b"
  by (simp add: cell_at_def)

lemma fst_nothrow_alloc: "fst (nothrow_alloc s) = (plan s = [] \<or> hd (plan s))"
  by (simp add: nothrow_alloc_def split: list.splits)

lemma upt_0_1: "[0..<1] = [0]"
  by simp

lemma upt_0_2: "[0..<2] = [0, 1]"
  by (simp add: upt_rec)

subsection \<open>Vectors in the store\<close>

lemma store_vec_cases:
  assumes "store_vec s l v = Inr s'"
  obtains (var) a w where "l = At a" "cell_at s a = Some (Vec_var w)"
      "s' = put_cell s a (Vec_var v)"
    | (params) a k p r where "l = Params_of a" "cell_at s a = Some (FuncType_obj k p r)"
      "s' = put_cell s a (FuncType_obj k v r)"
    | (results) a k p r where "l = Results_of a" "cell_at s a = Some (FuncType_obj k p r)"
      "s' = put_cell s a (FuncType_obj k p v)"
    | (modname) a m n t where "l = Modname_of a" "cell_at s a = Some (ImportType_obj m n t)"
      "s' = put_cell s a (ImportType_obj v n t)"
    | (import_name) a m n t where "l = Name_of a" "cell_at s a = Some (ImportType_obj m n t)"
      "s' = put_cell s a (ImportType_obj m v t)"
    | (export_name) a n t where "l = Name_of a" "cell_at s a = Some (ExportType_obj n t)"
      "s' = put_cell s a (ExportType_obj v t)"
  using assms
  by (auto simp: store_vec_def split: loc.splits option.splits cell.splits)

lemma load_vec_store_vec:
  "store_vec s l v = Inr s' \<Longrightarrow> load_vec s' l = Inr v"
  by (erule store_vec_cases) (auto simp: load_vec_def cell_at_put_cell dest: cell_at_less)

lemma load_vec_store_vec_other:
  assumes "store_vec s l v = Inr s'" and "l' \<noteq> l"
  shows "load_vec s' l' = load_vec s l'"
  using assms
  by (elim store_vec_cases) (auto simp: load_vec_def cell_at_put_cell split: loc.splits)

lemma store_vec_load_vec:
  "load_vec s l = Inr v \<Longrightarrow> store_vec s l v = Inr s"
  by (auto simp: store_vec_def load_vec_def put_cell_same_state
      split: loc.splits option.splits cell.splits)

lemma store_vec_ok:
  "load_vec s l = Inr v \<Longrightarrow> \<exists>s'. store_vec s l w = Inr s'"
  by (auto simp: store_vec_def load_vec_def split: loc.splits option.splits cell.splits)

lemma set_vec_size_load:
  "set_vec_size s l n = Inr s' \<Longrightarrow>
   \<exists>v. load_vec s l = Inr v \<and> load_vec s' l = Inr (v\<lparr>vec_size := n\<rparr>)"
  by (auto simp: set_vec_size_def and_then_def load_vec_store_vec split: sum.splits)

lemma set_vec_data_load:
  "set_vec_data s l p = Inr s' \<Longrightarrow>
   \<exists>v. load_vec s l = Inr v \<and> load_vec s' l = Inr (v\<lparr>vec_data := p\<rparr>)"
  by (auto simp: set_vec_data_def and_then_def load_vec_store_vec split: sum.splits)

lemma set_vec_size_id:
  "load_vec s l = Inr v \<Longrightarrow> vec_size v = n \<Longrightarrow> set_vec_size s l n = Inr s"
  by (simp add: set_vec_size_def store_vec_load_vec)

lemma set_vec_data_id:
  "load_vec s l = Inr v \<Longrightarrow> vec_data v = p \<Longrightarrow> set_vec_data s l p = Inr s"
  by (simp add: set_vec_data_def store_vec_load_vec)

lemma load_vec_place:
  "load_vec s l = Inr v \<Longrightarrow> load_vec (snd (place s c)) l = Inr v"
  by (auto simp: load_vec_def cell_at_place cell_at_fresh split: loc.splits)

lemma load_vec_nothrow_alloc [simp]: "load_vec (snd (nothrow_alloc s)) l = load_vec s l"
  by (simp add: load_vec_def split: loc.splits)

lemma load_vec_fresh:
  "load_vec s l = Inr v \<Longrightarrow>
   l \<noteq> Params_of (length (heap s)) \<and> l \<noteq> Results_of (length (heap s))"
  by (auto simp: load_vec_def cell_at_fresh)

lemma store_vec_read_elem:
  assumes "store_vec s l v = Inr s'"
  shows "read_elem ptr_elems s' p i = read_elem ptr_elems s p i"
  using assms
  by (elim store_vec_cases)
    (auto simp: read_elem_def load_array_def ptr_elems_def cell_at_put_cell
      split: option.splits loc.splits)

lemma store_vec_valtype_kind:
  assumes "store_vec s l v = Inr s'"
  shows "wasm_valtype_kind s' e = wasm_valtype_kind s e"
  using assms
  by (elim store_vec_cases)
    (auto simp: wasm_valtype_kind_def WASM_STRUCT_GET_ATTR_def valtype_kind_at_def
      cell_at_put_cell split: option.splits loc.splits)

lemma place_functype_read_elem:
  "read_elem ptr_elems (snd (place s (FuncType_obj k a b))) p i = read_elem ptr_elems s p i"
  by (auto simp: read_elem_def load_array_def ptr_elems_def cell_at_place cell_at_fresh
      split: option.splits loc.splits)

lemma place_functype_valtype_kind:
  "wasm_valtype_kind (snd (place s (FuncType_obj k a b))) e = wasm_valtype_kind s e"
  by (auto simp: wasm_valtype_kind_def WASM_STRUCT_GET_ATTR_def valtype_kind_at_def
      cell_at_place cell_at_fresh split: option.splits loc.splits)

lemma read_elem_nothrow_alloc [simp]:
  "read_elem E (snd (nothrow_alloc s)) p i = read_elem E s p i"
  by (simp add: read_elem_def load_array_def split: option.splits loc.splits)

lemma valtype_kind_nothrow_alloc [simp]:
  "wasm_valtype_kind (snd (nothrow_alloc s)) e = wasm_valtype_kind s e"
  by (simp add: wasm_valtype_kind_def WASM_STRUCT_GET_ATTR_def valtype_kind_at_def
      split: option.splits loc.splits)

subsection \<open>Deleting a vector\<close>

lemma vec_delete_ptr_result:
  "vec_delete_ptr del s (Some l) = Inr s1 \<Longrightarrow>
   load_vec s1 l = Inr \<lparr>vec_size = 0, vec_data = None\<rparr>"
  apply (simp add: vec_delete_ptr_def and_then_def split: sum.splits)
  apply (auto dest!: set_vec_size_load set_vec_data_load)
  done

lemma vec_delete_scalar_result:
  "vec_delete_scalar E s (Some l) = Inr s1 \<Longrightarrow>
   load_vec s1 l = Inr \<lparr>vec_size = 0, vec_data = None\<rparr>"
  apply (simp add: vec_delete_scalar_def and_then_def split: sum.splits)
  apply (auto dest!: set_vec_size_load set_vec_data_load)
  done

lemma vec_delete_ptr_empty:
  "load_vec s l = Inr \<lparr>vec_size = 0, vec_data = None\<rparr> \<Longrightarrow>
   vec_delete_ptr del s (Some l) = Inr s"
  by (simp add: vec_delete_ptr_def set_vec_size_id set_vec_data_id)

lemma vec_delete_scalar_empty:
  "load_vec s l = Inr \<lparr>vec_size = 0, vec_data = None\<rparr> \<Longrightarrow>
   vec_delete_scalar E s (Some l) = Inr s"
  by (simp add: vec_delete_scalar_def set_vec_size_id set_vec_data_id)

subsection \<open>Values in the store\<close>

lemma load_val_store_val:
  "store_val s l v = Inr s' \<Longrightarrow> load_val s' l = Inr v"
  by (auto simp: store_val_def load_val_def cell_at_put_cell dest: cell_at_less
      split: loc.splits option.splits cell.splits)

lemma load_val_store_val_other:
  "store_val s l v = Inr s' \<Longrightarrow> l' \<noteq> l \<Longrightarrow> load_val s' l' = load_val s l'"
  by (auto simp: store_val_def load_val_def cell_at_put_cell
      split: loc.splits option.splits cell.splits if_splits)

lemma store_val_load_val:
  "load_val s l = Inr v \<Longrightarrow> store_val s l v = Inr s"
  by (auto simp: store_val_def load_val_def put_cell_same_state
      split: loc.splits option.splits cell.splits)

lemma store_val_ok:
  "load_val s l = Inr v \<Longrightarrow> \<exists>s'. store_val s l w = Inr s'"
  by (auto simp: store_val_def load_val_def split: loc.splits option.splits cell.splits)

lemma store_val_twice:
  "store_val s l v = Inr s1 \<Longrightarrow> store_val s1 l w = store_val s l w"
  by (auto simp: store_val_def cell_at_put_cell put_cell_twice dest: cell_at_less
      split: loc.splits option.splits cell.splits if_splits)

lemma wasm_ref_delete_load_val:
  "wasm_ref_delete s r = Inr s0 \<Longrightarrow> load_val s0 l = load_val s l"
  by (auto simp: wasm_ref_delete_def WASM_DECLARE_OWN_IMPL_def WASM_STRUCT_GET_ATTR_def
      wasm_ref_t_destroy_def delete_obj_def is_ref_def load_val_def cell_at_release
      split: option.splits loc.splits cell.splits if_splits)

subsection \<open>Runs of single operations\<close>

lemma wasm_val_delete_twice:
  assumes "wasm_val_delete s (Some l) = Inr s1"
  shows "wasm_val_delete s1 (Some l) = Inr s1"
proof -
  from assms obtain v where v: "load_val s l = Inr v"
    by (auto simp: wasm_val_delete_def and_then_def split: sum.splits)
  show ?thesis
  proof (cases "val_kind v = WASM_ANYREF \<or> val_kind v = WASM_FUNCREF")
    case True
    with assms v obtain r s0 v1 where
      st: "store_val s0 l (v1\<lparr>val_of := Of_ref None\<rparr>) = Inr s1"
      and l0: "load_val s0 l = Inr v1" and d: "wasm_ref_delete s r = Inr s0"
      by (auto simp: wasm_val_delete_def and_then_def split: sum.splits)
    have "load_val s0 l = load_val s l"
      using d by (rule wasm_ref_delete_load_val)
    with l0 v have k: "val_kind v1 = val_kind v"
      by simp
    have l1: "load_val s1 l = Inr (v1\<lparr>val_of := Of_ref None\<rparr>)"
      using st by (rule load_val_store_val)
    show ?thesis
      using l1 True k
      by (simp add: wasm_val_delete_def of_ref_def wasm_ref_delete_def WASM_DECLARE_OWN_IMPL_def
          WASM_STRUCT_GET_ATTR_def store_val_load_val)
  next
    case False
    with assms v have st: "store_val s l (v\<lparr>val_of := Of_bits 0\<rparr>) = Inr s1"
      by (auto simp: wasm_val_delete_def)
    have l1: "load_val s1 l = Inr (v\<lparr>val_of := Of_bits 0\<rparr>)"
      using st by (rule load_val_store_val)
    show ?thesis
      using l1 False by (simp add: wasm_val_delete_def store_val_load_val)
  qed
qed

lemma wasm_val_copy_other_kind:
  assumes v: "load_val s lv = Inr v" and k: "val_kind v = VALKIND_other n"
    and o: "load_val s lo = Inr ov"
  shows "wasm_val_copy s (Some lo) (Some lv) = store_val s lo v"
proof -
  have nr: "\<not> (val_kind v = WASM_ANYREF \<or> val_kind v = WASM_FUNCREF)"
    using k by simp
  obtain s1 where s1: "store_val s lo (ov\<lparr>val_kind := val_kind v\<rparr>) = Inr s1"
    using store_val_ok[OF o] by blast
  have l1: "load_val s1 lo = Inr (ov\<lparr>val_kind := val_kind v\<rparr>)"
    using s1 by (rule load_val_store_val)
  have v1: "\<exists>v1. load_val s1 lv = Inr v1 \<and> val_of v1 = val_of v"
  proof (cases "lv = lo")
    case True
    then show ?thesis using l1 v o by simp
  next
    case False
    then show ?thesis using load_val_store_val_other[OF s1, of lv] v by simp
  qed
  then obtain v1 where v1: "load_val s1 lv = Inr v1" and p1: "val_of v1 = val_of v"
    by blast
  have r: "(ov\<lparr>val_kind := val_kind v, val_of := val_of v\<rparr>) = v"
    by simp
  have "wasm_val_copy s (Some lo) (Some lv) =
      store_val s1 lo (ov\<lparr>val_kind := val_kind v, val_of := val_of v\<rparr>)"
    using v o s1 l1 v1 p1 nr by (simp add: wasm_val_copy_def)
  then show ?thesis
    using r store_val_twice[OF s1] by simp
qed

lemma vec_new_ptr_run:
  assumes out: "load_vec s lo = Inr v0"
    and src: "cell_at s av = Some (Ptr_array ps)"
    and n: "0 < n" "n \<le> length ps"
    and ok: "fst (nothrow_alloc s)"
  shows "\<exists>s'. vec_new ptr_elems s (Some lo) n (Some (At av)) = Inr s' \<and>
           load_vec s' lo = Inr \<lparr>vec_size = n, vec_data = Some (At (length (heap s)))\<rparr> \<and>
           cell_at s' (length (heap s)) = Some (Ptr_array (take n ps)) \<and>
           cell_at s' av = Some (Ptr_array ps)"
proof -
  have avl: "av < length (heap s)"
    using src by (rule cell_at_less)
  show ?thesis
  proof (cases lo)
    case (At a)
    then have ca: "cell_at s a = Some (Vec_var v0)"
      using out by (auto simp: load_vec_def split: option.splits cell.splits)
    have al: "a < length (heap s)"
      using ca by (rule cell_at_less)
    have ne: "a \<noteq> av"
      using ca src by auto
    show ?thesis
      using At ca src n ok al avl ne
      by (simp add: vec_new_def set_vec_size_def set_vec_data_def load_vec_def store_vec_def
          cell_at_put_cell new_array_def case_prod_beta fst_nothrow_alloc
          cell_at_place copy_n_def load_array_def ptr_elems_def)
  next
    case (Params_of a)
    then obtain k r where ca: "cell_at s a = Some (FuncType_obj k v0 r)"
      using out by (auto simp: load_vec_def split: option.splits cell.splits)
    have al: "a < length (heap s)"
      using ca by (rule cell_at_less)
    have ne: "a \<noteq> av"
      using ca src by auto
    show ?thesis
      using Params_of ca src n ok al avl ne
      by (simp add: vec_new_def set_vec_size_def set_vec_data_def load_vec_def store_vec_def
          cell_at_put_cell new_array_def case_prod_beta fst_nothrow_alloc
          cell_at_place copy_n_def load_array_def ptr_elems_def)
  next
    case (Results_of a)
    then obtain k p where ca: "cell_at s a = Some (FuncType_obj k p v0)"
      using out by (auto simp: load_vec_def split: option.splits cell.splits)
    have al: "a < length (heap s)"
      using ca by (rule cell_at_less)
    have ne: "a \<noteq> av"
      using ca src by auto
    show ?thesis
      using Results_of ca src n ok al avl ne
      by (simp add: vec_new_def set_vec_size_def set_vec_data_def load_vec_def store_vec_def
          cell_at_put_cell new_array_def case_prod_beta fst_nothrow_alloc
          cell_at_place copy_n_def load_array_def ptr_elems_def)
  next
    case (Modname_of a)
    then obtain nm t where ca: "cell_at s a = Some (ImportType_obj v0 nm t)"
      using out by (auto simp: load_vec_def split: option.splits cell.splits)
    have al: "a < length (heap s)"
      using ca by (rule cell_at_less)
    have ne: "a \<noteq> av"
      using ca src by auto
    show ?thesis
      using Modname_of ca src n ok al avl ne
      by (simp add: vec_new_def set_vec_size_def set_vec_data_def load_vec_def store_vec_def
          cell_at_put_cell new_array_def case_prod_beta fst_nothrow_alloc
          cell_at_place copy_n_def load_array_def ptr_elems_def)
  next
    case (Name_of a)
    then consider (imp) m t where "cell_at s a = Some (ImportType_obj m v0 t)"
      | (exp) t where "cell_at s a = Some (ExportType_obj v0 t)"
      using out by (auto simp: load_vec_def split: option.splits cell.splits)
    then show ?thesis
    proof cases
      case imp
      have al: "a < length (heap s)"
        using imp by (rule cell_at_less)
      have ne: "a \<noteq> av"
        using imp src by auto
      show ?thesis
        using Name_of imp src n ok al avl ne
        by (simp add: vec_new_def set_vec_size_def set_vec_data_def load_vec_def store_vec_def
            cell_at_put_cell new_array_def case_prod_beta fst_nothrow_alloc
            cell_at_place copy_n_def load_array_def ptr_elems_def)
    next
      case exp
      have al: "a < length (heap s)"
        using exp by (rule cell_at_less)
      have ne: "a \<noteq> av"
        using exp src by auto
      show ?thesis
        using Name_of exp src n ok al avl ne
        by (simp add: vec_new_def set_vec_size_def set_vec_data_def load_vec_def store_vec_def
            cell_at_put_cell new_array_def case_prod_beta fst_nothrow_alloc
            cell_at_place copy_n_def load_array_def ptr_elems_def)
    qed
  next
    case (Content_of a)
    then show ?thesis using out by (simp add: load_vec_def)
  next
    case Wild
    then show ?thesis using out by (simp add: load_vec_def)
  qed
qed

lemma wasm_functype_new_takes_vectors:
  assumes vp: "load_vec s lp = Inr vp" and vr: "load_vec s lr = Inr vr"
    and ne: "lp \<noteq> lr" and ok: "fst (nothrow_alloc s)"
  shows "\<exists>s1. wasm_functype_new s (Some lp) (Some lr) = Inr (Some (At (length (heap s))), s1) \<and>
           load_vec s1 (Params_of (length (heap s))) = Inr vp \<and>
           load_vec s1 (Results_of (length (heap s))) = Inr vr \<and>
           (\<forall>p i. read_elem ptr_elems s1 p i = read_elem ptr_elems s p i) \<and>
           (\<forall>e. wasm_valtype_kind s1 e = wasm_valtype_kind s e)"
proof -
  define f where "f = length (heap s)"
  define s0 where "s0 = snd (nothrow_alloc s)"
  define j1 where "j1 = uninit s0 (Params_of f)"
  define j2 where "j2 = uninit s0 (Results_of f)"
  define s2 where "s2 = snd (place s0 (FuncType_obj WASM_EXTERN_FUNC j1 j2))"
  have al: "nothrow_alloc s = (True, s0)"
    using ok by (cases "nothrow_alloc s") (simp add: s0_def)
  have h0: "length (heap s0) = f"
    by (simp add: s0_def f_def)
  have fr: "lp \<noteq> Params_of f" "lp \<noteq> Results_of f" "lr \<noteq> Params_of f" "lr \<noteq> Results_of f"
    using load_vec_fresh[OF vp] load_vec_fresh[OF vr] by (simp_all add: f_def)
  have p2: "load_vec s2 (Params_of f) = Inr j1" and r2: "load_vec s2 (Results_of f) = Inr j2"
    using h0 by (simp_all add: s2_def load_vec_def cell_at_place)
  have lp2: "load_vec s2 lp = Inr vp" and lr2: "load_vec s2 lr = Inr vr"
    using vp vr by (simp_all add: s2_def s0_def load_vec_place)
  obtain s3 where s3: "store_vec s2 (Params_of f) vp = Inr s3"
    using store_vec_ok[OF p2] by blast
  have lp3: "load_vec s3 lp = Inr vp"
    using load_vec_store_vec_other[OF s3, of lp] lp2 fr by simp
  obtain s4 where s4: "store_vec s3 lp j1 = Inr s4"
    using store_vec_ok[OF lp3] by blast
  have sw1: "swap_vec s2 (Some (Params_of f)) (Some lp) = Inr s4"
    using p2 lp2 s3 s4 by (simp add: swap_vec_def)
  have r4: "load_vec s4 (Results_of f) = Inr j2"
    using load_vec_store_vec_other[OF s4, of "Results_of f"]
      load_vec_store_vec_other[OF s3, of "Results_of f"] r2 fr by simp
  have lr4: "load_vec s4 lr = Inr vr"
    using load_vec_store_vec_other[OF s4, of lr]
      load_vec_store_vec_other[OF s3, of lr] lr2 fr ne by simp
  have p4: "load_vec s4 (Params_of f) = Inr vp"
    using load_vec_store_vec_other[OF s4, of "Params_of f"] load_vec_store_vec[OF s3] fr by simp
  obtain s5 where s5: "store_vec s4 (Results_of f) vr = Inr s5"
    using store_vec_ok[OF r4] by blast
  have lr5: "load_vec s5 lr = Inr vr"
    using load_vec_store_vec_other[OF s5, of lr] lr4 fr by simp
  obtain s6 where s6: "store_vec s5 lr j2 = Inr s6"
    using store_vec_ok[OF lr5] by blast
  have sw2: "swap_vec s4 (Some (Results_of f)) (Some lr) = Inr s6"
    using r4 lr4 s5 s6 by (simp add: swap_vec_def)
  have run: "wasm_functype_new s (Some lp) (Some lr) = Inr (Some (At f), s6)"
    using al sw1 sw2 h0
    by (simp add: wasm_functype_new_def new_nothrow_def wasm_functype_t_init_def
        wasm_functype_t_body_def case_prod_beta j1_def j2_def s2_def)
  have p6: "load_vec s6 (Params_of f) = Inr vp"
    using load_vec_store_vec_other[OF s6, of "Params_of f"]
      load_vec_store_vec_other[OF s5, of "Params_of f"] p4 fr by simp
  have r6: "load_vec s6 (Results_of f) = Inr vr"
    using load_vec_store_vec_other[OF s6, of "Results_of f"] load_vec_store_vec[OF s5] fr by simp
  have re: "\<And>p i. read_elem ptr_elems s6 p i = read_elem ptr_elems s p i"
    by (simp add: store_vec_read_elem[OF s6] store_vec_read_elem[OF s5]
        store_vec_read_elem[OF s4] store_vec_read_elem[OF s3] s2_def
        place_functype_read_elem s0_def)
  have vk: "\<And>e. wasm_valtype_kind s6 e = wasm_valtype_kind s e"
    by (simp add: store_vec_valtype_kind[OF s6] store_vec_valtype_kind[OF s5]
        store_vec_valtype_kind[OF s4] store_vec_valtype_kind[OF s3] s2_def
        place_functype_valtype_kind s0_def)
  show ?thesis
    using run p6 r6 re vk by (auto simp: f_def)
qed

lemma wasm_globaltype_new_reports:
  assumes vt: "cell_at s v = Some (ValType_obj k)" and ok: "fst (nothrow_alloc s)"
  shows "\<exists>s1. wasm_globaltype_new s (Some (At v)) m = Inr (Some (At (length (heap s))), s1) \<and>
           wasm_globaltype_mutability s1 (Some (At (length (heap s)))) = Inr m \<and>
           wasm_valtype_kind s1 (Some (Content_of (length (heap s)))) = Inr k \<and>
           (\<forall>b. b \<noteq> v \<longrightarrow> b \<noteq> length (heap s) \<longrightarrow> cell_at s1 b = cell_at s b) \<and>
           length (heap s1) = Suc (length (heap s)) \<and>
           plan s1 = tl (plan s)"
proof -
  define s0 where "s0 = snd (nothrow_alloc s)"
  define s2 where "s2 = snd (place s0 (GlobalType_obj WASM_EXTERN_GLOBAL k m))"
  have al: "nothrow_alloc s = (True, s0)"
    using ok by (cases "nothrow_alloc s") (simp add: s0_def)
  have h0: "heap s0 = heap s" and c0: "\<And>b. cell_at s0 b = cell_at s b"
    by (simp_all add: s0_def)
  have p0: "plan s0 = tl (plan s)"
    by (simp add: s0_def nothrow_alloc_def split: list.splits)
  have vl: "v < length (heap s)"
    using vt by (rule cell_at_less)
  have c2: "\<And>b. cell_at s2 b =
      (if b = length (heap s) then Some (GlobalType_obj WASM_EXTERN_GLOBAL k m) else cell_at s b)"
    by (simp add: s2_def cell_at_place h0 c0)
  have run: "wasm_globaltype_new s (Some (At v)) m =
      Inr (Some (At (length (heap s))), release s2 v)"
    using al vt vl c0 h0 c2
    by (simp add: wasm_globaltype_new_def new_nothrow_def wasm_globaltype_t_init_def
        deref_valtype_def valtype_kind_at_def case_prod_beta wasm_globaltype_t_body_def
        wasm_valtype_delete_def WASM_DECLARE_OWN_IMPL_def WASM_STRUCT_GET_ATTR_def
        wasm_valtype_t_destroy_def delete_obj_def is_valtype_def s2_def)
  show ?thesis
    using run vl c2 p0 h0
    by (simp add: wasm_globaltype_mutability_def wasm_valtype_kind_def WASM_STRUCT_GET_ATTR_def
        valtype_kind_at_def cell_at_release s2_def)
qed

text \<open>
  The operations that leave a vector empty leave it with size 0 and data null:
  \<^verbatim>\<open>new_empty\<close>, \<^verbatim>\<open>new_uninitialized\<close> and \<^verbatim>\<open>new\<close> with size 0, and the copy of an empty
  vector of pointers (for the deletes see \<open>vec_delete_ptr_result\<close> and
  \<open>vec_delete_scalar_result\<close>).
\<close>

lemma empty_vectors_are_null:
  assumes "load_vec s l = Inr v0"
  shows "(\<exists>s1. vec_new_empty s (Some l) = Inr s1 \<and>
            load_vec s1 l = Inr \<lparr>vec_size = 0, vec_data = None\<rparr>) \<and>
         (\<exists>s1. vec_new_uninitialized E s (Some l) 0 = Inr s1 \<and>
            load_vec s1 l = Inr \<lparr>vec_size = 0, vec_data = None\<rparr>) \<and>
         (\<exists>s1. vec_new E s (Some l) 0 vals = Inr s1 \<and>
            load_vec s1 l = Inr \<lparr>vec_size = 0, vec_data = None\<rparr>) \<and>
         (load_vec s li = Inr vin \<and> vec_size vin = 0 \<longrightarrow>
            (\<exists>s1. vec_copy_ptr elem_copy s (Some l) (Some li) = Inr s1 \<and>
               load_vec s1 l = Inr \<lparr>vec_size = 0, vec_data = None\<rparr>))"
proof -
  obtain s1 where s1: "store_vec s l (v0\<lparr>vec_size := 0\<rparr>) = Inr s1"
    using store_vec_ok[OF assms] by blast
  have l1: "load_vec s1 l = Inr (v0\<lparr>vec_size := 0\<rparr>)"
    using s1 by (rule load_vec_store_vec)
  obtain s2 where s2: "store_vec s1 l (v0\<lparr>vec_size := 0, vec_data := None\<rparr>) = Inr s2"
    using store_vec_ok[OF l1] by blast
  have l2: "load_vec s2 l = Inr \<lparr>vec_size = 0, vec_data = None\<rparr>"
    using load_vec_store_vec[OF s2] by simp
  have z: "set_vec_size s l 0 = Inr s1" "set_vec_data s1 l None = Inr s2"
    using assms s1 l1 s2 by (simp_all add: set_vec_size_def set_vec_data_def)
  have a: "vec_new_empty s (Some l) = Inr s2" "vec_new_uninitialized E s (Some l) 0 = Inr s2"
    "vec_new E s (Some l) 0 vals = Inr s2"
    using z by (simp_all add: vec_new_empty_def vec_new_uninitialized_def vec_new_def)
  have c: "\<exists>s1. vec_copy_ptr elem_copy s (Some l) (Some li) = Inr s1 \<and>
               load_vec s1 l = Inr \<lparr>vec_size = 0, vec_data = None\<rparr>"
    if i: "load_vec s li = Inr vin \<and> vec_size vin = 0"
  proof -
    have "\<exists>w. load_vec s2 li = Inr w \<and> vec_size w = 0"
    proof (cases "li = l")
      case True
      then show ?thesis using l2 by simp
    next
      case False
      then show ?thesis
        using load_vec_store_vec_other[OF s2, of li] load_vec_store_vec_other[OF s1, of li] i
        by simp
    qed
    then show ?thesis
      using i z l2 by (auto simp: vec_copy_ptr_def)
  qed
  show ?thesis
    using a l2 c by simp
qed

text \<open>
  The caller of \<open>s_caller\<close> runs
  \<^verbatim>\<open>ps[0] = wasm_valtype_new(WASM_I32); ps[1] = wasm_valtype_new(WASM_I64);\<close>
  \<^verbatim>\<open>rs[0] = wasm_valtype_new(WASM_F32);\<close>
  \<^verbatim>\<open>wasm_valtype_vec_new(&params, 2, ps); wasm_valtype_vec_new(&results, 1, rs);\<close>
  and makes two more value types: the state is \<open>s_sig\<close>.
\<close>

lemma s_sig_built:
  "and_then (wasm_valtype_new s_caller WASM_I32) (\<lambda>(p0, s1).
   and_then (write_elem ptr_elems s1 (Some (At 0)) 0 p0) (\<lambda>s2.
   and_then (wasm_valtype_new s2 WASM_I64) (\<lambda>(p1, s3).
   and_then (write_elem ptr_elems s3 (Some (At 0)) 1 p1) (\<lambda>s4.
   and_then (wasm_valtype_new s4 WASM_F32) (\<lambda>(r0, s5).
   and_then (write_elem ptr_elems s5 (Some (At 1)) 0 r0) (\<lambda>s6.
   and_then (wasm_valtype_vec_new s6 (Some (At 2)) 2 (Some (At 0))) (\<lambda>s7.
   and_then (wasm_valtype_vec_new s7 (Some (At 3)) 1 (Some (At 1))) (\<lambda>s8.
   and_then (wasm_valtype_new s8 WASM_I64) (\<lambda>(g0, s9).
   and_then (wasm_valtype_new s9 WASM_F32) (\<lambda>(g1, s10).
   Inr (g0, g1, s10))))))))))) = Inr (Some (At 9), Some (At 10), s_sig)"
  by (simp add: s_caller_def s_sig_def wasm_valtype_new_def new_nothrow_def nothrow_alloc_def
      place_def no_body_def write_elem_def load_array_def ptr_elems_def cell_at_def put_cell_def
      wasm_valtype_vec_new_def vec_new_def set_vec_size_def set_vec_data_def load_vec_def
      store_vec_def new_array_def copy_n_def)

subsection \<open>Deleting an object a second time\<close>

lemma own_delete_obj_twice:
  "cell_at s a = Some c \<Longrightarrow> is_T c \<Longrightarrow>
   WASM_DECLARE_OWN_IMPL (delete_obj is_T) s (Some (At a)) = Inr (release s a) \<and>
   WASM_DECLARE_OWN_IMPL (delete_obj is_T) (release s a) (Some (At a)) = Inl Invalid_pointer"
  by (simp add: WASM_DECLARE_OWN_IMPL_def WASM_STRUCT_GET_ATTR_def delete_obj_def cell_at_release)

lemma delete_functype_released:
  "delete_functype s (Some x) = Inr s1 \<Longrightarrow> \<exists>b. x = At b \<and> cell_at s1 b = None"
  by (auto simp: delete_functype_def and_then_def cell_at_release
      split: loc.splits option.splits cell.splits sum.splits)

lemma delete_obj_released:
  "delete_obj is_T s x = Inr s1 \<Longrightarrow> \<exists>b. x = At b \<and> cell_at s1 b = None"
  by (auto simp: delete_obj_def cell_at_release split: loc.splits option.splits if_splits)

lemma wasm_functype_delete_twice:
  assumes "wasm_functype_delete s (Some x) = Inr s1"
  shows "(\<exists>b. x = At b \<and> cell_at s1 b = None) \<and>
         wasm_functype_delete s1 (Some x) = Inl Invalid_pointer"
proof -
  from assms have "delete_functype s (Some x) = Inr s1"
    by (simp add: wasm_functype_delete_def WASM_DECLARE_OWN_IMPL_def WASM_STRUCT_GET_ATTR_def
        wasm_functype_t_destroy_def)
  then obtain b where b: "x = At b" "cell_at s1 b = None"
    using delete_functype_released by blast
  then show ?thesis
    by (simp add: wasm_functype_delete_def WASM_DECLARE_OWN_IMPL_def WASM_STRUCT_GET_ATTR_def
        wasm_functype_t_destroy_def delete_functype_def)
qed

lemma wasm_externtype_delete_twice:
  assumes "wasm_externtype_delete s (Some x) = Inr s1"
  shows "(\<exists>b. x = At b \<and> cell_at s1 b = None) \<and>
         wasm_externtype_delete s1 (Some x) = Inl Invalid_pointer"
proof -
  from assms have d: "wasm_externtype_t_destroy s x = Inr s1"
    by (simp add: wasm_externtype_delete_def WASM_DECLARE_OWN_IMPL_def WASM_STRUCT_GET_ATTR_def)
  then obtain k where k: "externtype_kind_at s x = Inr k"
    by (auto simp: wasm_externtype_t_destroy_def and_then_def split: sum.splits)
  have "\<exists>b. x = At b \<and> cell_at s1 b = None"
  proof (cases k)
    case WASM_EXTERN_FUNC
    then show ?thesis
      using d k delete_functype_released[of s x s1]
      by (simp add: wasm_externtype_t_destroy_def wasm_externtype_as_functype_def)
  next
    case WASM_EXTERN_GLOBAL
    then show ?thesis
      using d k delete_obj_released[of is_globaltype s x s1]
      by (simp add: wasm_externtype_t_destroy_def wasm_externtype_as_globaltype_def
          delete_variant_def)
  next
    case WASM_EXTERN_TABLE
    then show ?thesis
      using d k delete_obj_released[of is_tabletype s x s1]
      by (simp add: wasm_externtype_t_destroy_def wasm_externtype_as_tabletype_def
          delete_variant_def)
  next
    case WASM_EXTERN_MEMORY
    then show ?thesis
      using d k delete_obj_released[of is_memorytype s x s1]
      by (simp add: wasm_externtype_t_destroy_def wasm_externtype_as_memorytype_def
          delete_variant_def)
  next
    case (EXTERNKIND_other n)
    then show ?thesis
      using d k by (simp add: wasm_externtype_t_destroy_def)
  qed
  then obtain b where b: "x = At b" "cell_at s1 b = None"
    by blast
  then show ?thesis
    by (simp add: wasm_externtype_delete_def WASM_DECLARE_OWN_IMPL_def WASM_STRUCT_GET_ATTR_def
        wasm_externtype_t_destroy_def externtype_kind_at_def)
qed

lemma wasm_importtype_delete_twice:
  assumes "wasm_importtype_delete s (Some x) = Inr s1"
  shows "(\<exists>b. x = At b \<and> cell_at s1 b = None) \<and>
         wasm_importtype_delete s1 (Some x) = Inl Invalid_pointer"
proof -
  from assms have "wasm_importtype_t_destroy s x = Inr s1"
    by (simp add: wasm_importtype_delete_def WASM_DECLARE_OWN_IMPL_def WASM_STRUCT_GET_ATTR_def)
  then obtain b where b: "x = At b" "cell_at s1 b = None"
    by (auto simp: wasm_importtype_t_destroy_def and_then_def cell_at_release
        split: loc.splits option.splits cell.splits sum.splits)
  then show ?thesis
    by (simp add: wasm_importtype_delete_def WASM_DECLARE_OWN_IMPL_def WASM_STRUCT_GET_ATTR_def
        wasm_importtype_t_destroy_def)
qed

lemma wasm_exporttype_delete_twice:
  assumes "wasm_exporttype_delete s (Some x) = Inr s1"
  shows "(\<exists>b. x = At b \<and> cell_at s1 b = None) \<and>
         wasm_exporttype_delete s1 (Some x) = Inl Invalid_pointer"
proof -
  from assms have "wasm_exporttype_t_destroy s x = Inr s1"
    by (simp add: wasm_exporttype_delete_def WASM_DECLARE_OWN_IMPL_def WASM_STRUCT_GET_ATTR_def)
  then obtain b where b: "x = At b" "cell_at s1 b = None"
    by (auto simp: wasm_exporttype_t_destroy_def and_then_def cell_at_release
        split: loc.splits option.splits cell.splits sum.splits)
  then show ?thesis
    by (simp add: wasm_exporttype_delete_def WASM_DECLARE_OWN_IMPL_def WASM_STRUCT_GET_ATTR_def
        wasm_exporttype_t_destroy_def)
qed

subsection \<open>Deleting the example objects\<close>

lemma s_handles_functype:
  "\<exists>t. wasm_functype_delete s_handles (Some (At 10)) = Inr t \<and> cell_at t 10 = None \<and>
     cell_at t 9 = None \<and> cell_at t 8 = None"
  by (simp add: wasm_functype_delete_def WASM_DECLARE_OWN_IMPL_def WASM_STRUCT_GET_ATTR_def
      wasm_functype_t_destroy_def delete_functype_def wasm_valtype_vec_delete_def
      vec_delete_ptr_def s_handles_def load_vec_def cell_at_def upt_0_1 read_elem_def
      load_array_def ptr_elems_def wasm_valtype_delete_def wasm_valtype_t_destroy_def
      delete_obj_def is_valtype_def release_def delete_array_def set_vec_size_def
      set_vec_data_def store_vec_def put_cell_def)

lemma s_handles_externtype:
  "wasm_externtype_delete s_handles (Some (At 11)) = Inr (release s_handles 11)"
  by (simp add: wasm_externtype_delete_def WASM_DECLARE_OWN_IMPL_def WASM_STRUCT_GET_ATTR_def
      wasm_externtype_t_destroy_def externtype_kind_at_def wasm_externtype_as_memorytype_def
      delete_variant_def delete_obj_def is_memorytype_def s_handles_def cell_at_def)

lemma s_handles_importtype:
  "\<exists>t. wasm_importtype_delete s_handles (Some (At 15)) = Inr t \<and> cell_at t 15 = None \<and>
     cell_at t 12 = None \<and> cell_at t 13 = None \<and> cell_at t 14 = None"
  by (simp add: wasm_importtype_delete_def WASM_DECLARE_OWN_IMPL_def WASM_STRUCT_GET_ATTR_def
      wasm_importtype_t_destroy_def wasm_name_delete_def wasm_byte_vec_delete_def
      vec_delete_scalar_def member_type_def
      wasm_externtype_delete_def wasm_externtype_t_destroy_def externtype_kind_at_def
      wasm_externtype_as_globaltype_def delete_variant_def delete_obj_def is_globaltype_def
      s_handles_def load_vec_def cell_at_def load_array_def byte_elems_def release_def
      delete_array_def set_vec_size_def set_vec_data_def store_vec_def put_cell_def)

lemma s_handles_exporttype:
  "\<exists>t. wasm_exporttype_delete s_handles (Some (At 18)) = Inr t \<and> cell_at t 18 = None \<and>
     cell_at t 16 = None \<and> cell_at t 17 = None"
  by (simp add: wasm_exporttype_delete_def WASM_DECLARE_OWN_IMPL_def WASM_STRUCT_GET_ATTR_def
      wasm_exporttype_t_destroy_def wasm_name_delete_def wasm_byte_vec_delete_def
      vec_delete_scalar_def member_type_def
      wasm_externtype_delete_def wasm_externtype_t_destroy_def externtype_kind_at_def
      wasm_externtype_as_globaltype_def delete_variant_def delete_obj_def is_globaltype_def
      s_handles_def load_vec_def cell_at_def load_array_def byte_elems_def release_def
      delete_array_def set_vec_size_def set_vec_data_def store_vec_def put_cell_def)

section \<open>The claims\<close>

text \<open>
  C1. The claim fails on the code. When storage is found, each of the four constructors
  evaluates its member initialisers on the argument without a test:
  \<^verbatim>\<open>wasm_engine_new_with_config\<close> reads \<^verbatim>\<open>c->conf\<close>, \<^verbatim>\<open>wasm_globaltype_new\<close> and
  \<^verbatim>\<open>wasm_tabletype_new\<close> read \<^verbatim>\<open>vt->kind\<close>, \<^verbatim>\<open>wasm_tabletype_new\<close> and \<^verbatim>\<open>wasm_memorytype_new\<close>
  read \<^verbatim>\<open>*lim\<close>. With a null argument each is a null dereference.
\<close>

theorem null_argument_constructors_fault:
  "fst (nothrow_alloc s) \<Longrightarrow>
   wasm_engine_new_with_config s None = Inl Null_dereference \<and>
   wasm_globaltype_new s None mut = Inl Null_dereference \<and>
   wasm_tabletype_new s None lim = Inl Null_dereference \<and>
   (cell_at s v = Some (ValType_obj k) \<longrightarrow>
      wasm_tabletype_new s (Some (At v)) None = Inl Null_dereference) \<and>
   wasm_memorytype_new s None = Inl Null_dereference"
proof -
  assume ok: "fst (nothrow_alloc s)"
  obtain s0 where al: "nothrow_alloc s = (True, s0)"
    using ok by (cases "nothrow_alloc s") simp
  have c0: "\<And>b. cell_at s0 b = cell_at s b"
    using cell_at_nothrow_alloc[of s] al by simp
  show ?thesis
    using al c0
    by (simp add: wasm_engine_new_with_config_def wasm_globaltype_new_def wasm_tabletype_new_def
      wasm_memorytype_new_def new_nothrow_def wasm_engine_t_init_def config_conf_def
      wasm_globaltype_t_init_def wasm_tabletype_t_init_def wasm_memorytype_t_init_def
      deref_valtype_def deref_limits_def valtype_kind_at_def)
qed

theorem null_argument_constructors_fault_witness:
  "fst (nothrow_alloc s_valtype) \<and>
   cell_at s_valtype 0 = Some (ValType_obj WASM_I32) \<and>
   wasm_engine_new_with_config s_valtype None = Inl Null_dereference \<and>
   wasm_globaltype_new s_valtype None WASM_CONST = Inl Null_dereference \<and>
   wasm_tabletype_new s_valtype None (Some (At 1)) = Inl Null_dereference \<and>
   wasm_tabletype_new s_valtype (Some (At 0)) None = Inl Null_dereference \<and>
   wasm_memorytype_new s_valtype None = Inl Null_dereference"
proof -
  have ok: "fst (nothrow_alloc s_valtype)"
    by (simp add: s_valtype_def nothrow_alloc_def)
  have c: "cell_at s_valtype 0 = Some (ValType_obj WASM_I32)"
    by (simp add: s_valtype_def cell_at_def)
  show ?thesis
    using null_argument_constructors_fault[OF ok, of WASM_CONST "Some (At 1)" 0 WASM_I32] ok c
    by simp
qed

text \<open>
  C2. As stated the claim fails: after \<^verbatim>\<open>wasm_valtype_vec_new(&out, 1, vals)\<close> the slot
  \<^verbatim>\<open>vals[0]\<close> still holds the pointer that \<^verbatim>\<open>out.data[0]\<close> now holds as well.
\<close>

theorem vec_new_source_slot_counterexample:
  "\<exists>s'. wasm_valtype_vec_new s_vec_new (Some (At 2)) 1 (Some (At 1)) = Inr s' \<and>
         load_vec s' (At 2) = Inr \<lparr>vec_size = 1, vec_data = Some (At 3)\<rparr> \<and>
         read_elem ptr_elems s' (Some (At 3)) 0 = Inr (Some (At 0)) \<and>
         read_elem ptr_elems s' (Some (At 1)) 0 = Inr (Some (At 0)) \<and>
         read_elem ptr_elems s' (Some (At 1)) 0 \<noteq> Inr None"
proof -
  have o: "load_vec s_vec_new (At 2) = Inr no_vec"
    by (simp add: s_vec_new_def load_vec_def cell_at_def)
  have v: "cell_at s_vec_new 1 = Some (Ptr_array [Some (At 0)])"
    by (simp add: s_vec_new_def cell_at_def)
  have ok: "fst (nothrow_alloc s_vec_new)"
    by (simp add: s_vec_new_def nothrow_alloc_def)
  have len: "length (heap s_vec_new) = 3"
    by (simp add: s_vec_new_def)
  from vec_new_ptr_run[OF o v _ _ ok, of 1] len
  obtain s' where r: "vec_new ptr_elems s_vec_new (Some (At 2)) 1 (Some (At 1)) = Inr s'"
    and l: "load_vec s' (At 2) = Inr \<lparr>vec_size = 1, vec_data = Some (At 3)\<rparr>"
    and c3: "cell_at s' 3 = Some (Ptr_array [Some (At 0)])"
    and c1: "cell_at s' 1 = Some (Ptr_array [Some (At 0)])"
    by auto
  show ?thesis
    using r l c3 c1
    by (simp add: wasm_valtype_vec_new_def read_elem_def load_array_def ptr_elems_def)
qed

text \<open>
  C2, amended. For a vector of pointers, \<open>n > 0\<close>, an array \<^verbatim>\<open>vals\<close> of at least \<open>n\<close>
  pointers and an allocation that succeeds, \<^verbatim>\<open>wasm_<name>_vec_new(out, n, vals)\<close> leaves
  \<^verbatim>\<open>out\<close> with size \<open>n\<close> and a new array that holds the first \<open>n\<close> pointers of \<^verbatim>\<open>vals\<close> in
  their order, and the array \<^verbatim>\<open>vals\<close> is as it was: every slot keeps its pointer.
\<close>

theorem vec_new_copies_pointers_and_keeps_source:
  assumes "load_vec s lo = Inr v0"
    and "cell_at s av = Some (Ptr_array ps)"
    and "0 < n" and "n \<le> length ps"
    and "fst (nothrow_alloc s)"
  shows "\<exists>s'. vec_new ptr_elems s (Some lo) n (Some (At av)) = Inr s' \<and>
           load_vec s' lo = Inr \<lparr>vec_size = n, vec_data = Some (At (length (heap s)))\<rparr> \<and>
           cell_at s' (length (heap s)) = Some (Ptr_array (take n ps)) \<and>
           cell_at s' av = Some (Ptr_array ps)"
  using assms by (rule vec_new_ptr_run)

theorem vec_new_copies_pointers_and_keeps_source_witness:
  "load_vec s_vec_new (At 2) = Inr no_vec \<and>
   cell_at s_vec_new 1 = Some (Ptr_array [Some (At 0)]) \<and>
   fst (nothrow_alloc s_vec_new) \<and>
   (\<exists>s'. vec_new ptr_elems s_vec_new (Some (At 2)) 1 (Some (At 1)) = Inr s' \<and>
      load_vec s' (At 2) = Inr \<lparr>vec_size = 1, vec_data = Some (At 3)\<rparr> \<and>
      cell_at s' 3 = Some (Ptr_array [Some (At 0)]) \<and>
      cell_at s' 1 = Some (Ptr_array [Some (At 0)]))"
proof -
  have o: "load_vec s_vec_new (At 2) = Inr no_vec"
    by (simp add: s_vec_new_def load_vec_def cell_at_def)
  have v: "cell_at s_vec_new 1 = Some (Ptr_array [Some (At 0)])"
    by (simp add: s_vec_new_def cell_at_def)
  have ok: "fst (nothrow_alloc s_vec_new)"
    by (simp add: s_vec_new_def nothrow_alloc_def)
  have len: "length (heap s_vec_new) = 3"
    by (simp add: s_vec_new_def)
  show ?thesis
    using vec_new_copies_pointers_and_keeps_source[OF o v _ _ ok, of 1] o v ok len
    by simp
qed

text \<open>
  C3. The claim fails on the code for the vectors of plain values. With
  \<^verbatim>\<open>wasm_byte_vec_t in, out;\<close> not yet initialised, \<^verbatim>\<open>wasm_byte_vec_new_empty(&in)\<close> followed
  by \<^verbatim>\<open>wasm_byte_vec_copy(&out, &in)\<close> sets \<^verbatim>\<open>out.size\<close> to 0 and leaves \<^verbatim>\<open>out.data\<close> with
  the pointer its storage held. The copy for vectors of pointers, run on the same state,
  sets \<^verbatim>\<open>out.data\<close> to null.
\<close>

theorem byte_vec_copy_of_empty_keeps_old_data:
  "\<exists>s1. wasm_byte_vec_new_empty s_copy (Some (At 0)) = Inr s1 \<and>
      load_vec s1 (At 0) = Inr \<lparr>vec_size = 0, vec_data = None\<rparr> \<and>
      (\<exists>s2. wasm_byte_vec_copy s1 (Some (At 2)) (Some (At 0)) = Inr s2 \<and>
         load_vec s2 (At 2) = Inr \<lparr>vec_size = 0, vec_data = Some (At 1)\<rparr>) \<and>
      (\<exists>s3. wasm_valtype_vec_copy s1 (Some (At 2)) (Some (At 0)) = Inr s3 \<and>
         load_vec s3 (At 2) = Inr \<lparr>vec_size = 0, vec_data = None\<rparr>)"
  by (simp add: wasm_byte_vec_new_empty_def vec_new_empty_def wasm_byte_vec_copy_def
      vec_copy_scalar_def wasm_valtype_vec_copy_def vec_copy_ptr_def s_copy_def load_vec_def
      cell_at_def set_vec_size_def set_vec_data_def store_vec_def put_cell_def)

text \<open>
  C4. For a reference with any host data and a finalizer that is not null,
  \<^verbatim>\<open>wasm_ref_delete\<close> releases the cell of the reference and nothing else: every other
  cell, the host data among them, is as before, and no callback has been invoked.
\<close>

theorem wasm_ref_delete_releases_only_the_ref:
  "cell_at s a = Some (Ref_obj host_info (Some fin)) \<Longrightarrow>
   wasm_ref_delete s (Some (At a)) = Inr (release s a) \<and>
   cell_at (release s a) a = None \<and>
   (\<forall>b. b \<noteq> a \<longrightarrow> cell_at (release s a) b = cell_at s b) \<and>
   calls (release s a) = calls s"
  by (simp add: wasm_ref_delete_def WASM_DECLARE_OWN_IMPL_def WASM_STRUCT_GET_ATTR_def
      wasm_ref_t_destroy_def delete_obj_def is_ref_def cell_at_release)
    (simp add: release_def)

theorem wasm_ref_delete_releases_only_the_ref_witness:
  "cell_at s_refs 0 = Some (Ref_obj (Some (At 3)) (Some 42)) \<and>
   wasm_ref_delete s_refs (Some (At 0)) = Inr (release s_refs 0) \<and>
   cell_at (release s_refs 0) 3 = Some (Host_data [1, 2, 3]) \<and>
   calls (release s_refs 0) = []"
proof -
  have r: "cell_at s_refs 0 = Some (Ref_obj (Some (At 3)) (Some 42))"
    by (simp add: s_refs_def cell_at_def)
  have h: "cell_at s_refs 3 = Some (Host_data [1, 2, 3])"
    by (simp add: s_refs_def cell_at_def)
  have c: "calls s_refs = []"
    by (simp add: s_refs_def)
  show ?thesis
    using wasm_ref_delete_releases_only_the_ref[OF r] r h c by simp
qed

text \<open>
  C5. As stated the claim fails for the types whose delete takes the object by pointer:
  the first \<^verbatim>\<open>wasm_valtype_delete(x)\<close> releases the object, and the second, given the same
  pointer, reaches \<^verbatim>\<open>delete this\<close> on storage that is gone.
\<close>

theorem valtype_delete_twice_counterexample:
  "wasm_valtype_delete s_valtype (Some (At 0)) = Inr (release s_valtype 0) \<and>
   wasm_valtype_delete (release s_valtype 0) (Some (At 0)) = Inl Invalid_pointer"
proof -
  have c: "cell_at s_valtype 0 = Some (ValType_obj WASM_I32)"
    by (simp add: s_valtype_def cell_at_def)
  show ?thesis
    by (simp add: wasm_valtype_delete_def WASM_DECLARE_OWN_IMPL_def WASM_STRUCT_GET_ATTR_def
        wasm_valtype_t_destroy_def delete_obj_def is_valtype_def cell_at_release c)
qed

text \<open>
  C5, amended. Every \<^verbatim>\<open>wasm_<name>_delete\<close>, \<^verbatim>\<open>wasm_val_delete\<close> and both vector deletes
  do nothing for a null argument. For a vector, of pointers or of plain values, a delete
  that returns leaves size 0 and data null, and a second delete of the same vector changes
  nothing; the same holds for a second \<^verbatim>\<open>wasm_val_delete\<close> of the same value. For the twelve
  types deleted through a pointer to the object the second delete is not a no-op. On a
  live configuration, engine, store, value type, global type, table type, memory type or
  reference, the first delete releases the object and changes nothing else, and a second
  delete with the same pointer uses the released storage. For a function type, an extern
  type, an import type and an export type, whenever the first delete returns it has
  released the object, and a second delete with the same pointer uses the released storage.
\<close>

theorem destroy_null_and_repeated_destroy:
  "WASM_DECLARE_OWN_IMPL destroy s None = Inr s \<and>
   wasm_val_delete s None = Inr s \<and>
   vec_delete_ptr elem_delete s None = Inr s \<and>
   vec_delete_scalar E s None = Inr s \<and>
   (vec_delete_ptr elem_delete s (Some lp) = Inr s1 \<longrightarrow>
      load_vec s1 lp = Inr \<lparr>vec_size = 0, vec_data = None\<rparr> \<and>
      vec_delete_ptr elem_delete s1 (Some lp) = Inr s1) \<and>
   (vec_delete_scalar E s (Some lb) = Inr s2 \<longrightarrow>
      load_vec s2 lb = Inr \<lparr>vec_size = 0, vec_data = None\<rparr> \<and>
      vec_delete_scalar E s2 (Some lb) = Inr s2) \<and>
   (wasm_val_delete s (Some lv) = Inr s3 \<longrightarrow> wasm_val_delete s3 (Some lv) = Inr s3) \<and>
   (cell_at s a0 = Some (Config_obj cf0) \<longrightarrow>
      wasm_config_delete s (Some (At a0)) = Inr (release s a0) \<and>
      wasm_config_delete (release s a0) (Some (At a0)) = Inl Invalid_pointer) \<and>
   (cell_at s a1 = Some (Engine_obj cf1 ic1) \<longrightarrow>
      wasm_engine_delete s (Some (At a1)) = Inr (release s a1) \<and>
      wasm_engine_delete (release s a1) (Some (At a1)) = Inl Invalid_pointer) \<and>
   (cell_at s a2 = Some (Store_obj e2 lc2 vc2) \<longrightarrow>
      wasm_store_delete s (Some (At a2)) = Inr (release s a2) \<and>
      wasm_store_delete (release s a2) (Some (At a2)) = Inl Invalid_pointer) \<and>
   (cell_at s a3 = Some (ValType_obj k3) \<longrightarrow>
      wasm_valtype_delete s (Some (At a3)) = Inr (release s a3) \<and>
      wasm_valtype_delete (release s a3) (Some (At a3)) = Inl Invalid_pointer) \<and>
   (cell_at s a4 = Some (GlobalType_obj ek4 k4 m4) \<longrightarrow>
      wasm_globaltype_delete s (Some (At a4)) = Inr (release s a4) \<and>
      wasm_globaltype_delete (release s a4) (Some (At a4)) = Inl Invalid_pointer) \<and>
   (cell_at s a5 = Some (TableType_obj ek5 k5 lm5) \<longrightarrow>
      wasm_tabletype_delete s (Some (At a5)) = Inr (release s a5) \<and>
      wasm_tabletype_delete (release s a5) (Some (At a5)) = Inl Invalid_pointer) \<and>
   (cell_at s a6 = Some (MemoryType_obj ek6 lm6) \<longrightarrow>
      wasm_memorytype_delete s (Some (At a6)) = Inr (release s a6) \<and>
      wasm_memorytype_delete (release s a6) (Some (At a6)) = Inl Invalid_pointer) \<and>
   (cell_at s a7 = Some (Ref_obj h7 f7) \<longrightarrow>
      wasm_ref_delete s (Some (At a7)) = Inr (release s a7) \<and>
      wasm_ref_delete (release s a7) (Some (At a7)) = Inl Invalid_pointer) \<and>
   (wasm_functype_delete s (Some x8) = Inr s8 \<longrightarrow>
      (\<exists>b. x8 = At b \<and> cell_at s8 b = None) \<and>
      wasm_functype_delete s8 (Some x8) = Inl Invalid_pointer) \<and>
   (wasm_externtype_delete s (Some x9) = Inr s9 \<longrightarrow>
      (\<exists>b. x9 = At b \<and> cell_at s9 b = None) \<and>
      wasm_externtype_delete s9 (Some x9) = Inl Invalid_pointer) \<and>
   (wasm_importtype_delete s (Some x10) = Inr s10 \<longrightarrow>
      (\<exists>b. x10 = At b \<and> cell_at s10 b = None) \<and>
      wasm_importtype_delete s10 (Some x10) = Inl Invalid_pointer) \<and>
   (wasm_exporttype_delete s (Some x11) = Inr s11 \<longrightarrow>
      (\<exists>b. x11 = At b \<and> cell_at s11 b = None) \<and>
      wasm_exporttype_delete s11 (Some x11) = Inl Invalid_pointer)"
proof -
  have null: "WASM_DECLARE_OWN_IMPL destroy s None = Inr s" "wasm_val_delete s None = Inr s"
    "vec_delete_ptr elem_delete s None = Inr s" "vec_delete_scalar E s None = Inr s"
    by (simp_all add: WASM_DECLARE_OWN_IMPL_def WASM_STRUCT_GET_ATTR_def wasm_val_delete_def
        vec_delete_ptr_def vec_delete_scalar_def)
  have vp: "vec_delete_ptr elem_delete s (Some lp) = Inr s1 \<longrightarrow>
      load_vec s1 lp = Inr \<lparr>vec_size = 0, vec_data = None\<rparr> \<and>
      vec_delete_ptr elem_delete s1 (Some lp) = Inr s1"
    using vec_delete_ptr_result[of elem_delete s lp s1] vec_delete_ptr_empty[of s1 lp elem_delete]
    by blast
  have vs: "vec_delete_scalar E s (Some lb) = Inr s2 \<longrightarrow>
      load_vec s2 lb = Inr \<lparr>vec_size = 0, vec_data = None\<rparr> \<and>
      vec_delete_scalar E s2 (Some lb) = Inr s2"
    using vec_delete_scalar_result[of E s lb s2] vec_delete_scalar_empty[of s2 lb E]
    by blast
  have vv: "wasm_val_delete s (Some lv) = Inr s3 \<longrightarrow> wasm_val_delete s3 (Some lv) = Inr s3"
    using wasm_val_delete_twice[of s lv s3] by blast
  have h0: "cell_at s a0 = Some (Config_obj cf0) \<longrightarrow>
      wasm_config_delete s (Some (At a0)) = Inr (release s a0) \<and>
      wasm_config_delete (release s a0) (Some (At a0)) = Inl Invalid_pointer"
    using own_delete_obj_twice[of s a0 "Config_obj cf0" is_config]
    by (simp add: wasm_config_delete_def is_config_def)
  have h1: "cell_at s a1 = Some (Engine_obj cf1 ic1) \<longrightarrow>
      wasm_engine_delete s (Some (At a1)) = Inr (release s a1) \<and>
      wasm_engine_delete (release s a1) (Some (At a1)) = Inl Invalid_pointer"
    using own_delete_obj_twice[of s a1 "Engine_obj cf1 ic1" is_engine]
    by (simp add: wasm_engine_delete_def is_engine_def)
  have h2: "cell_at s a2 = Some (Store_obj e2 lc2 vc2) \<longrightarrow>
      wasm_store_delete s (Some (At a2)) = Inr (release s a2) \<and>
      wasm_store_delete (release s a2) (Some (At a2)) = Inl Invalid_pointer"
    using own_delete_obj_twice[of s a2 "Store_obj e2 lc2 vc2" is_store]
    by (simp add: wasm_store_delete_def is_store_def)
  have h3: "cell_at s a3 = Some (ValType_obj k3) \<longrightarrow>
      wasm_valtype_delete s (Some (At a3)) = Inr (release s a3) \<and>
      wasm_valtype_delete (release s a3) (Some (At a3)) = Inl Invalid_pointer"
    using own_delete_obj_twice[of s a3 "ValType_obj k3" is_valtype]
    by (simp add: wasm_valtype_delete_def wasm_valtype_t_destroy_def is_valtype_def)
  have h4: "cell_at s a4 = Some (GlobalType_obj ek4 k4 m4) \<longrightarrow>
      wasm_globaltype_delete s (Some (At a4)) = Inr (release s a4) \<and>
      wasm_globaltype_delete (release s a4) (Some (At a4)) = Inl Invalid_pointer"
    using own_delete_obj_twice[of s a4 "GlobalType_obj ek4 k4 m4" is_globaltype]
    by (simp add: wasm_globaltype_delete_def wasm_globaltype_t_destroy_def is_globaltype_def)
  have h5: "cell_at s a5 = Some (TableType_obj ek5 k5 lm5) \<longrightarrow>
      wasm_tabletype_delete s (Some (At a5)) = Inr (release s a5) \<and>
      wasm_tabletype_delete (release s a5) (Some (At a5)) = Inl Invalid_pointer"
    using own_delete_obj_twice[of s a5 "TableType_obj ek5 k5 lm5" is_tabletype]
    by (simp add: wasm_tabletype_delete_def wasm_tabletype_t_destroy_def is_tabletype_def)
  have h6: "cell_at s a6 = Some (MemoryType_obj ek6 lm6) \<longrightarrow>
      wasm_memorytype_delete s (Some (At a6)) = Inr (release s a6) \<and>
      wasm_memorytype_delete (release s a6) (Some (At a6)) = Inl Invalid_pointer"
    using own_delete_obj_twice[of s a6 "MemoryType_obj ek6 lm6" is_memorytype]
    by (simp add: wasm_memorytype_delete_def wasm_memorytype_t_destroy_def is_memorytype_def)
  have h7: "cell_at s a7 = Some (Ref_obj h7 f7) \<longrightarrow>
      wasm_ref_delete s (Some (At a7)) = Inr (release s a7) \<and>
      wasm_ref_delete (release s a7) (Some (At a7)) = Inl Invalid_pointer"
    using own_delete_obj_twice[of s a7 "Ref_obj h7 f7" is_ref]
    by (simp add: wasm_ref_delete_def wasm_ref_t_destroy_def is_ref_def)
  have h8: "wasm_functype_delete s (Some x8) = Inr s8 \<longrightarrow>
      (\<exists>b. x8 = At b \<and> cell_at s8 b = None) \<and>
      wasm_functype_delete s8 (Some x8) = Inl Invalid_pointer"
    using wasm_functype_delete_twice[of s x8 s8] by blast
  have h9: "wasm_externtype_delete s (Some x9) = Inr s9 \<longrightarrow>
      (\<exists>b. x9 = At b \<and> cell_at s9 b = None) \<and>
      wasm_externtype_delete s9 (Some x9) = Inl Invalid_pointer"
    using wasm_externtype_delete_twice[of s x9 s9] by blast
  have h10: "wasm_importtype_delete s (Some x10) = Inr s10 \<longrightarrow>
      (\<exists>b. x10 = At b \<and> cell_at s10 b = None) \<and>
      wasm_importtype_delete s10 (Some x10) = Inl Invalid_pointer"
    using wasm_importtype_delete_twice[of s x10 s10] by blast
  have h11: "wasm_exporttype_delete s (Some x11) = Inr s11 \<longrightarrow>
      (\<exists>b. x11 = At b \<and> cell_at s11 b = None) \<and>
      wasm_exporttype_delete s11 (Some x11) = Inl Invalid_pointer"
    using wasm_exporttype_delete_twice[of s x11 s11] by blast
  show ?thesis
    using null vp vs vv h0 h1 h2 h3 h4 h5 h6 h7 h8 h9 h10 h11 by (intro conjI)
qed


theorem destroy_null_and_repeated_destroy_witness:
  "wasm_valtype_delete s_owned None = Inr s_owned \<and>
   wasm_valtype_vec_delete s_owned (Some (At 3)) = Inr s_owned_valtypes_deleted \<and>
   wasm_valtype_vec_delete s_owned_valtypes_deleted (Some (At 3)) = Inr s_owned_valtypes_deleted \<and>
   wasm_byte_vec_delete s_owned (Some (At 5)) = Inr s_owned_bytes_deleted \<and>
   wasm_byte_vec_delete s_owned_bytes_deleted (Some (At 5)) = Inr s_owned_bytes_deleted \<and>
   wasm_val_delete s_owned (Some (At 7)) = Inr s_owned_val_deleted \<and>
   wasm_val_delete s_owned_val_deleted (Some (At 7)) = Inr s_owned_val_deleted \<and>
   wasm_config_delete s_handles (Some (At 0)) = Inr (release s_handles 0) \<and>
   wasm_config_delete (release s_handles 0) (Some (At 0)) = Inl Invalid_pointer \<and>
   wasm_engine_delete s_handles (Some (At 1)) = Inr (release s_handles 1) \<and>
   wasm_engine_delete (release s_handles 1) (Some (At 1)) = Inl Invalid_pointer \<and>
   wasm_store_delete s_handles (Some (At 2)) = Inr (release s_handles 2) \<and>
   wasm_store_delete (release s_handles 2) (Some (At 2)) = Inl Invalid_pointer \<and>
   wasm_valtype_delete s_handles (Some (At 3)) = Inr (release s_handles 3) \<and>
   wasm_valtype_delete (release s_handles 3) (Some (At 3)) = Inl Invalid_pointer \<and>
   wasm_globaltype_delete s_handles (Some (At 4)) = Inr (release s_handles 4) \<and>
   wasm_globaltype_delete (release s_handles 4) (Some (At 4)) = Inl Invalid_pointer \<and>
   wasm_tabletype_delete s_handles (Some (At 5)) = Inr (release s_handles 5) \<and>
   wasm_tabletype_delete (release s_handles 5) (Some (At 5)) = Inl Invalid_pointer \<and>
   wasm_memorytype_delete s_handles (Some (At 6)) = Inr (release s_handles 6) \<and>
   wasm_memorytype_delete (release s_handles 6) (Some (At 6)) = Inl Invalid_pointer \<and>
   wasm_ref_delete s_handles (Some (At 7)) = Inr (release s_handles 7) \<and>
   wasm_ref_delete (release s_handles 7) (Some (At 7)) = Inl Invalid_pointer \<and>
   (\<exists>t. wasm_functype_delete s_handles (Some (At 10)) = Inr t \<and> cell_at t 10 = None \<and>
        wasm_functype_delete t (Some (At 10)) = Inl Invalid_pointer) \<and>
   (\<exists>t. wasm_externtype_delete s_handles (Some (At 11)) = Inr t \<and> cell_at t 11 = None \<and>
        wasm_externtype_delete t (Some (At 11)) = Inl Invalid_pointer) \<and>
   (\<exists>t. wasm_importtype_delete s_handles (Some (At 15)) = Inr t \<and> cell_at t 15 = None \<and>
        wasm_importtype_delete t (Some (At 15)) = Inl Invalid_pointer) \<and>
   (\<exists>t. wasm_exporttype_delete s_handles (Some (At 18)) = Inr t \<and> cell_at t 18 = None \<and>
        wasm_exporttype_delete t (Some (At 18)) = Inl Invalid_pointer)"
proof -
  note inst = destroy_null_and_repeated_destroy[where destroy = wasm_valtype_t_destroy
      and elem_delete = wasm_valtype_delete and E = byte_elems
      and lp = "At 3" and ?s1.0 = s_owned_valtypes_deleted
      and lb = "At 5" and ?s2.0 = s_owned_bytes_deleted
      and lv = "At 7" and ?s3.0 = s_owned_val_deleted
      and ?a0.0 = 0 and ?cf0.0 = "Configure 1"
      and ?a1.0 = 1 and ?cf1.0 = "Configure 1" and ?ic1.0 = "Configure 1"
      and ?a2.0 = 2 and ?e2.0 = "Some (At 1)" and ?lc2.0 = "Configure 1"
      and ?vc2.0 = "Configure 1"
      and ?a3.0 = 3 and ?k3.0 = WASM_I32
      and ?a4.0 = 4 and ?ek4.0 = WASM_EXTERN_GLOBAL and ?k4.0 = WASM_I64 and ?m4.0 = WASM_VAR
      and ?a5.0 = 5 and ?ek5.0 = WASM_EXTERN_TABLE and ?k5.0 = WASM_FUNCREF
      and ?lm5.0 = "\<lparr>limits_min = 10, limits_max = 20\<rparr>"
      and ?a6.0 = 6 and ?ek6.0 = WASM_EXTERN_MEMORY
      and ?lm6.0 = "\<lparr>limits_min = 10, limits_max = 20\<rparr>"
      and ?a7.0 = 7 and ?h7.0 = None and ?f7.0 = None
      and ?x8.0 = "At 10" and ?x9.0 = "At 11" and ?x10.0 = "At 15" and ?x11.0 = "At 18"]
  have p: "vec_delete_ptr wasm_valtype_delete s_owned (Some (At 3)) = Inr s_owned_valtypes_deleted"
    by (simp add: vec_delete_ptr_def s_owned_def s_owned_valtypes_deleted_def
        load_vec_def cell_at_def upt_0_2 read_elem_def load_array_def ptr_elems_def
        wasm_valtype_delete_def WASM_DECLARE_OWN_IMPL_def WASM_STRUCT_GET_ATTR_def
        wasm_valtype_t_destroy_def delete_obj_def is_valtype_def release_def delete_array_def
        set_vec_size_def set_vec_data_def store_vec_def put_cell_def)
  have b: "vec_delete_scalar byte_elems s_owned (Some (At 5)) = Inr s_owned_bytes_deleted"
    by (simp add: vec_delete_scalar_def s_owned_def s_owned_bytes_deleted_def
        load_vec_def cell_at_def load_array_def byte_elems_def release_def delete_array_def
        set_vec_size_def set_vec_data_def store_vec_def put_cell_def)
  have v: "wasm_val_delete s_owned (Some (At 7)) = Inr s_owned_val_deleted"
    by (simp add: wasm_val_delete_def s_owned_def s_owned_val_deleted_def load_val_def
        store_val_def cell_at_def of_ref_def wasm_ref_delete_def WASM_DECLARE_OWN_IMPL_def
        WASM_STRUCT_GET_ATTR_def wasm_ref_t_destroy_def delete_obj_def is_ref_def release_def
        put_cell_def)
  have c: "cell_at s_handles 0 = Some (Config_obj (Configure 1))"
    "cell_at s_handles 1 = Some (Engine_obj (Configure 1) (Configure 1))"
    "cell_at s_handles 2 = Some (Store_obj (Some (At 1)) (Configure 1) (Configure 1))"
    "cell_at s_handles 3 = Some (ValType_obj WASM_I32)"
    "cell_at s_handles 4 = Some (GlobalType_obj WASM_EXTERN_GLOBAL WASM_I64 WASM_VAR)"
    "cell_at s_handles 5 = Some (TableType_obj WASM_EXTERN_TABLE WASM_FUNCREF
       \<lparr>limits_min = 10, limits_max = 20\<rparr>)"
    "cell_at s_handles 6 = Some (MemoryType_obj WASM_EXTERN_MEMORY
       \<lparr>limits_min = 10, limits_max = 20\<rparr>)"
    "cell_at s_handles 7 = Some (Ref_obj None None)"
    by (simp_all add: s_handles_def cell_at_def)
  obtain t8 where t8: "wasm_functype_delete s_handles (Some (At 10)) = Inr t8"
    using s_handles_functype by blast
  obtain t9 where t9: "wasm_externtype_delete s_handles (Some (At 11)) = Inr t9"
    using s_handles_externtype by blast
  obtain t10 where t10: "wasm_importtype_delete s_handles (Some (At 15)) = Inr t10"
    using s_handles_importtype by blast
  obtain t11 where t11: "wasm_exporttype_delete s_handles (Some (At 18)) = Inr t11"
    using s_handles_exporttype by blast
  note owned = inst[where s = s_owned and ?s8.0 = s_owned and ?s9.0 = s_owned
      and ?s10.0 = s_owned and ?s11.0 = s_owned]
  note handles = inst[where s = s_handles and ?s8.0 = t8 and ?s9.0 = t9
      and ?s10.0 = t10 and ?s11.0 = t11]
  have 1: "wasm_valtype_delete s_owned None = Inr s_owned \<and>
   wasm_valtype_vec_delete s_owned (Some (At 3)) = Inr s_owned_valtypes_deleted \<and>
   wasm_valtype_vec_delete s_owned_valtypes_deleted (Some (At 3)) = Inr s_owned_valtypes_deleted \<and>
   wasm_byte_vec_delete s_owned (Some (At 5)) = Inr s_owned_bytes_deleted \<and>
   wasm_byte_vec_delete s_owned_bytes_deleted (Some (At 5)) = Inr s_owned_bytes_deleted \<and>
   wasm_val_delete s_owned (Some (At 7)) = Inr s_owned_val_deleted \<and>
   wasm_val_delete s_owned_val_deleted (Some (At 7)) = Inr s_owned_val_deleted"
    using owned p b v
    by (simp add: wasm_valtype_vec_delete_def wasm_byte_vec_delete_def wasm_valtype_delete_def)
  have 2: "wasm_config_delete s_handles (Some (At 0)) = Inr (release s_handles 0) \<and>
   wasm_config_delete (release s_handles 0) (Some (At 0)) = Inl Invalid_pointer \<and>
   wasm_engine_delete s_handles (Some (At 1)) = Inr (release s_handles 1) \<and>
   wasm_engine_delete (release s_handles 1) (Some (At 1)) = Inl Invalid_pointer \<and>
   wasm_store_delete s_handles (Some (At 2)) = Inr (release s_handles 2) \<and>
   wasm_store_delete (release s_handles 2) (Some (At 2)) = Inl Invalid_pointer \<and>
   wasm_valtype_delete s_handles (Some (At 3)) = Inr (release s_handles 3) \<and>
   wasm_valtype_delete (release s_handles 3) (Some (At 3)) = Inl Invalid_pointer \<and>
   wasm_globaltype_delete s_handles (Some (At 4)) = Inr (release s_handles 4) \<and>
   wasm_globaltype_delete (release s_handles 4) (Some (At 4)) = Inl Invalid_pointer \<and>
   wasm_tabletype_delete s_handles (Some (At 5)) = Inr (release s_handles 5) \<and>
   wasm_tabletype_delete (release s_handles 5) (Some (At 5)) = Inl Invalid_pointer \<and>
   wasm_memorytype_delete s_handles (Some (At 6)) = Inr (release s_handles 6) \<and>
   wasm_memorytype_delete (release s_handles 6) (Some (At 6)) = Inl Invalid_pointer \<and>
   wasm_ref_delete s_handles (Some (At 7)) = Inr (release s_handles 7) \<and>
   wasm_ref_delete (release s_handles 7) (Some (At 7)) = Inl Invalid_pointer"
    using handles c by simp
  have 3: "(\<exists>t. wasm_functype_delete s_handles (Some (At 10)) = Inr t \<and> cell_at t 10 = None \<and>
        wasm_functype_delete t (Some (At 10)) = Inl Invalid_pointer) \<and>
   (\<exists>t. wasm_externtype_delete s_handles (Some (At 11)) = Inr t \<and> cell_at t 11 = None \<and>
        wasm_externtype_delete t (Some (At 11)) = Inl Invalid_pointer) \<and>
   (\<exists>t. wasm_importtype_delete s_handles (Some (At 15)) = Inr t \<and> cell_at t 15 = None \<and>
        wasm_importtype_delete t (Some (At 15)) = Inl Invalid_pointer) \<and>
   (\<exists>t. wasm_exporttype_delete s_handles (Some (At 18)) = Inr t \<and> cell_at t 18 = None \<and>
        wasm_exporttype_delete t (Some (At 18)) = Inl Invalid_pointer)"
    using handles t8 t9 t10 t11 by simp
  show ?thesis
    using 1 2 3 by simp
qed

text \<open>
  C6. As stated the claim fails for values: on a value whose kind is outside the
  enumeration \<^verbatim>\<open>wasm_val_delete\<close> returns after it has zeroed the payload, and
  \<^verbatim>\<open>wasm_val_copy\<close> returns after it has copied kind and payload.
\<close>

theorem val_invalid_kind_counterexample:
  "wasm_val_delete s_val (Some (At 0)) =
     Inr (put_cell s_val 0 (Val_var \<lparr>val_kind = VALKIND_other 7, val_of = Of_bits 0\<rparr>)) \<and>
   wasm_val_copy s_val (Some (At 1)) (Some (At 0)) =
     Inr (put_cell s_val 1 (Val_var \<lparr>val_kind = VALKIND_other 7, val_of = Of_bits 5\<rparr>))"
  by (simp add: wasm_val_delete_def wasm_val_copy_def s_val_def load_val_def store_val_def
      cell_at_def put_cell_def)

text \<open>
  C6, amended. On an extern type whose \<^verbatim>\<open>kind\<close> is outside the enumeration,
  \<^verbatim>\<open>wasm_externtype_copy\<close> and \<^verbatim>\<open>wasm_externtype_delete\<close> reach the label \<^verbatim>\<open>default:\<close>,
  whose only statement is \<^verbatim>\<open>__builtin_unreachable()\<close>: the behaviour is undefined there
  (the fault \<open>Unreachable\<close>), and the code has no abort, trap or error return on this path.
  On a value whose kind is outside the enumeration,
  \<^verbatim>\<open>wasm_val_delete\<close> and \<^verbatim>\<open>wasm_val_copy\<close> treat it as a number: the delete zeroes the
  payload and keeps the kind, the copy gives \<^verbatim>\<open>out\<close> the kind and the payload of the source.
\<close>

theorem invalid_discriminant_dispatch:
  "(externtype_kind_at s l = Inr (EXTERNKIND_other n) \<longrightarrow>
      wasm_externtype_copy s (Some l) = Inl Unreachable \<and>
      wasm_externtype_delete s (Some l) = Inl Unreachable) \<and>
   (load_val s lv = Inr v \<and> val_kind v = VALKIND_other m \<longrightarrow>
      (\<exists>s1. wasm_val_delete s (Some lv) = Inr s1 \<and>
            load_val s1 lv = Inr (v\<lparr>val_of := Of_bits 0\<rparr>)) \<and>
      (load_val s lo = Inr ov \<longrightarrow>
         (\<exists>s2. wasm_val_copy s (Some lo) (Some lv) = Inr s2 \<and> load_val s2 lo = Inr v)))"
proof (intro conjI impI)
  assume k: "externtype_kind_at s l = Inr (EXTERNKIND_other n)"
  show "wasm_externtype_copy s (Some l) = Inl Unreachable"
    using k by (simp add: wasm_externtype_copy_def WASM_DECLARE_COPY_IMPL_def
        WASM_STRUCT_GET_ATTR_def wasm_externtype_t_copy_def)
  show "wasm_externtype_delete s (Some l) = Inl Unreachable"
    using k by (simp add: wasm_externtype_delete_def WASM_DECLARE_OWN_IMPL_def
        WASM_STRUCT_GET_ATTR_def wasm_externtype_t_destroy_def)
next
  assume a: "load_val s lv = Inr v \<and> val_kind v = VALKIND_other m"
  obtain s1 where s1: "store_val s lv (v\<lparr>val_of := Of_bits 0\<rparr>) = Inr s1"
    using store_val_ok a by blast
  show "\<exists>s1. wasm_val_delete s (Some lv) = Inr s1 \<and>
            load_val s1 lv = Inr (v\<lparr>val_of := Of_bits 0\<rparr>)"
    using a s1 load_val_store_val[OF s1] by (simp add: wasm_val_delete_def)
next
  assume a: "load_val s lv = Inr v \<and> val_kind v = VALKIND_other m"
    and o: "load_val s lo = Inr ov"
  obtain s2 where s2: "store_val s lo v = Inr s2"
    using store_val_ok o by blast
  show "\<exists>s2. wasm_val_copy s (Some lo) (Some lv) = Inr s2 \<and> load_val s2 lo = Inr v"
    using a o s2 load_val_store_val[OF s2] wasm_val_copy_other_kind[of s lv v m lo ov]
    by simp
qed

theorem invalid_discriminant_dispatch_witness:
  "externtype_kind_at s_val (At 2) = Inr (EXTERNKIND_other 9) \<and>
   wasm_externtype_copy s_val (Some (At 2)) = Inl Unreachable \<and>
   wasm_externtype_delete s_val (Some (At 2)) = Inl Unreachable \<and>
   load_val s_val (At 0) = Inr \<lparr>val_kind = VALKIND_other 7, val_of = Of_bits 5\<rparr> \<and>
   (\<exists>s1. wasm_val_delete s_val (Some (At 0)) = Inr s1 \<and>
         load_val s1 (At 0) = Inr \<lparr>val_kind = VALKIND_other 7, val_of = Of_bits 0\<rparr>) \<and>
   (\<exists>s2. wasm_val_copy s_val (Some (At 1)) (Some (At 0)) = Inr s2 \<and>
         load_val s2 (At 1) = Inr \<lparr>val_kind = VALKIND_other 7, val_of = Of_bits 5\<rparr>)"
proof -
  have k: "externtype_kind_at s_val (At 2) = Inr (EXTERNKIND_other 9)"
    by (simp add: externtype_kind_at_def s_val_def cell_at_def)
  have v: "load_val s_val (At 0) = Inr \<lparr>val_kind = VALKIND_other 7, val_of = Of_bits 5\<rparr>"
    by (simp add: load_val_def s_val_def cell_at_def)
  have o: "load_val s_val (At 1) = Inr \<lparr>val_kind = WASM_I32, val_of = Of_bits 0\<rparr>"
    by (simp add: load_val_def s_val_def cell_at_def)
  show ?thesis
    using invalid_discriminant_dispatch[of s_val "At 2" 9 "At 0"
        "\<lparr>val_kind = VALKIND_other 7, val_of = Of_bits 5\<rparr>" 7 "At 1"
        "\<lparr>val_kind = WASM_I32, val_of = Of_bits 0\<rparr>"] k v o
    by simp
qed

text \<open>
  C7. For each of the four variants, the conversion to \<^verbatim>\<open>wasm_externtype_t *\<close> followed
  by the conversion back gives the pointer it started from, in the plain and in the const
  forms; the functions take and give pointers only, so none allocates.
\<close>

theorem externtype_casts_round_trip:
  "wasm_externtype_as_functype (wasm_functype_as_externtype v) = v \<and>
   wasm_externtype_as_globaltype (wasm_globaltype_as_externtype v) = v \<and>
   wasm_externtype_as_tabletype (wasm_tabletype_as_externtype v) = v \<and>
   wasm_externtype_as_memorytype (wasm_memorytype_as_externtype v) = v \<and>
   wasm_externtype_as_functype_const (wasm_functype_as_externtype_const v) = v \<and>
   wasm_externtype_as_globaltype_const (wasm_globaltype_as_externtype_const v) = v \<and>
   wasm_externtype_as_tabletype_const (wasm_tabletype_as_externtype_const v) = v \<and>
   wasm_externtype_as_memorytype_const (wasm_memorytype_as_externtype_const v) = v"
  by (simp add: wasm_externtype_as_functype_def wasm_functype_as_externtype_def
      wasm_externtype_as_globaltype_def wasm_globaltype_as_externtype_def
      wasm_externtype_as_tabletype_def wasm_tabletype_as_externtype_def
      wasm_externtype_as_memorytype_def wasm_memorytype_as_externtype_def
      wasm_externtype_as_functype_const_def wasm_functype_as_externtype_const_def
      wasm_externtype_as_globaltype_const_def wasm_globaltype_as_externtype_const_def
      wasm_externtype_as_tabletype_const_def wasm_tabletype_as_externtype_const_def
      wasm_externtype_as_memorytype_const_def wasm_memorytype_as_externtype_const_def)



text \<open>
  C9. \<^verbatim>\<open>wasm_functype_new\<close> on two vectors (in two different variables of the caller) gives
  a function type whose \<^verbatim>\<open>params()\<close> and \<^verbatim>\<open>results()\<close> are the two vectors as they were
  passed: size and data, and every element and its kind read as before. For
  \<open>params = [I32, I64]\<close> and \<open>results = [F32]\<close> that is size 2 with kinds I32, I64 and size 1
  with kind F32. \<^verbatim>\<open>wasm_globaltype_new\<close> on a value type of kind \<open>k\<close> and a mutability \<open>m\<close>
  gives a global type whose \<^verbatim>\<open>mutability()\<close> is \<open>m\<close> and whose \<^verbatim>\<open>content()\<close> has kind \<open>k\<close>, and
  it changes no cell but the value type it consumes, so what an earlier global type
  reports stays.
\<close>

theorem functype_and_globaltype_report_their_construction:
  "(load_vec s lp = Inr vp \<and> load_vec s lr = Inr vr \<and> lp \<noteq> lr \<and> fst (nothrow_alloc s) \<longrightarrow>
      (\<exists>s1. wasm_functype_new s (Some lp) (Some lr) = Inr (Some (At (length (heap s))), s1) \<and>
         wasm_functype_params (Some (At (length (heap s)))) =
           Inr (Some (Params_of (length (heap s)))) \<and>
         wasm_functype_results (Some (At (length (heap s)))) =
           Inr (Some (Results_of (length (heap s)))) \<and>
         load_vec s1 (Params_of (length (heap s))) = Inr vp \<and>
         load_vec s1 (Results_of (length (heap s))) = Inr vr \<and>
         (\<forall>p i. read_elem ptr_elems s1 p i = read_elem ptr_elems s p i) \<and>
         (\<forall>e. wasm_valtype_kind s1 e = wasm_valtype_kind s e))) \<and>
   (cell_at s v = Some (ValType_obj k) \<and> fst (nothrow_alloc s) \<longrightarrow>
      (\<exists>s1. wasm_globaltype_new s (Some (At v)) m = Inr (Some (At (length (heap s))), s1) \<and>
         wasm_globaltype_mutability s1 (Some (At (length (heap s)))) = Inr m \<and>
         wasm_globaltype_content (Some (At (length (heap s)))) =
           Inr (Some (Content_of (length (heap s)))) \<and>
         wasm_valtype_kind s1 (Some (Content_of (length (heap s)))) = Inr k \<and>
         (\<forall>b. b \<noteq> v \<longrightarrow> b \<noteq> length (heap s) \<longrightarrow> cell_at s1 b = cell_at s b) \<and>
         length (heap s1) = Suc (length (heap s)) \<and>
         plan s1 = tl (plan s)))"
proof (intro conjI impI)
  assume a: "load_vec s lp = Inr vp \<and> load_vec s lr = Inr vr \<and> lp \<noteq> lr \<and>
    fst (nothrow_alloc s)"
  have acc: "wasm_functype_params (Some (At (length (heap s)))) =
      Inr (Some (Params_of (length (heap s))))"
    "wasm_functype_results (Some (At (length (heap s)))) =
      Inr (Some (Results_of (length (heap s))))"
    by (simp_all add: wasm_functype_params_def wasm_functype_results_def
        WASM_STRUCT_GET_ATTR_def member_params_def member_results_def)
  from a wasm_functype_new_takes_vectors[of s lp vp lr vr]
  show "\<exists>s1. wasm_functype_new s (Some lp) (Some lr) = Inr (Some (At (length (heap s))), s1) \<and>
         wasm_functype_params (Some (At (length (heap s)))) =
           Inr (Some (Params_of (length (heap s)))) \<and>
         wasm_functype_results (Some (At (length (heap s)))) =
           Inr (Some (Results_of (length (heap s)))) \<and>
         load_vec s1 (Params_of (length (heap s))) = Inr vp \<and>
         load_vec s1 (Results_of (length (heap s))) = Inr vr \<and>
         (\<forall>p i. read_elem ptr_elems s1 p i = read_elem ptr_elems s p i) \<and>
         (\<forall>e. wasm_valtype_kind s1 e = wasm_valtype_kind s e)"
    unfolding acc by simp
next
  assume a: "cell_at s v = Some (ValType_obj k) \<and> fst (nothrow_alloc s)"
  have acc: "wasm_globaltype_content (Some (At (length (heap s)))) =
      Inr (Some (Content_of (length (heap s))))"
    by (simp add: wasm_globaltype_content_def WASM_STRUCT_GET_ATTR_def)
  from a wasm_globaltype_new_reports[of s v k m]
  show "\<exists>s1. wasm_globaltype_new s (Some (At v)) m = Inr (Some (At (length (heap s))), s1) \<and>
         wasm_globaltype_mutability s1 (Some (At (length (heap s)))) = Inr m \<and>
         wasm_globaltype_content (Some (At (length (heap s)))) =
           Inr (Some (Content_of (length (heap s)))) \<and>
         wasm_valtype_kind s1 (Some (Content_of (length (heap s)))) = Inr k \<and>
         (\<forall>b. b \<noteq> v \<longrightarrow> b \<noteq> length (heap s) \<longrightarrow> cell_at s1 b = cell_at s b) \<and>
         length (heap s1) = Suc (length (heap s)) \<and>
         plan s1 = tl (plan s)"
    unfolding acc by simp
qed

theorem functype_and_globaltype_report_their_construction_witness:
  "(\<exists>s1. wasm_functype_new s_sig (Some (At 2)) (Some (At 3)) = Inr (Some (At 11), s1) \<and>
      wasm_functype_params (Some (At 11)) = Inr (Some (Params_of 11)) \<and>
      wasm_functype_results (Some (At 11)) = Inr (Some (Results_of 11)) \<and>
      load_vec s1 (Params_of 11) = Inr \<lparr>vec_size = 2, vec_data = Some (At 7)\<rparr> \<and>
      read_elem ptr_elems s1 (Some (At 7)) 0 = Inr (Some (At 4)) \<and>
      wasm_valtype_kind s1 (Some (At 4)) = Inr WASM_I32 \<and>
      read_elem ptr_elems s1 (Some (At 7)) 1 = Inr (Some (At 5)) \<and>
      wasm_valtype_kind s1 (Some (At 5)) = Inr WASM_I64 \<and>
      load_vec s1 (Results_of 11) = Inr \<lparr>vec_size = 1, vec_data = Some (At 8)\<rparr> \<and>
      read_elem ptr_elems s1 (Some (At 8)) 0 = Inr (Some (At 6)) \<and>
      wasm_valtype_kind s1 (Some (At 6)) = Inr WASM_F32) \<and>
   (\<exists>s1 s2. wasm_globaltype_new s_sig (Some (At 9)) WASM_VAR = Inr (Some (At 11), s1) \<and>
      wasm_globaltype_new s1 (Some (At 10)) WASM_CONST = Inr (Some (At 12), s2) \<and>
      wasm_globaltype_mutability s2 (Some (At 11)) = Inr WASM_VAR \<and>
      wasm_valtype_kind s2 (Some (Content_of 11)) = Inr WASM_I64 \<and>
      wasm_globaltype_mutability s2 (Some (At 12)) = Inr WASM_CONST \<and>
      wasm_valtype_kind s2 (Some (Content_of 12)) = Inr WASM_F32)"
proof -
  have len: "length (heap s_sig) = 11"
    by (simp add: s_sig_def)
  have ok: "fst (nothrow_alloc s_sig)" and pl: "plan s_sig = []"
    by (simp_all add: s_sig_def nothrow_alloc_def)
  have vp: "load_vec s_sig (At 2) = Inr \<lparr>vec_size = 2, vec_data = Some (At 7)\<rparr>"
    and vr: "load_vec s_sig (At 3) = Inr \<lparr>vec_size = 1, vec_data = Some (At 8)\<rparr>"
    by (simp_all add: s_sig_def load_vec_def cell_at_def)
  have rd: "read_elem ptr_elems s_sig (Some (At 7)) 0 = Inr (Some (At 4))"
    "read_elem ptr_elems s_sig (Some (At 7)) 1 = Inr (Some (At 5))"
    "read_elem ptr_elems s_sig (Some (At 8)) 0 = Inr (Some (At 6))"
    by (simp_all add: s_sig_def read_elem_def load_array_def ptr_elems_def cell_at_def)
  have kd: "wasm_valtype_kind s_sig (Some (At 4)) = Inr WASM_I32"
    "wasm_valtype_kind s_sig (Some (At 5)) = Inr WASM_I64"
    "wasm_valtype_kind s_sig (Some (At 6)) = Inr WASM_F32"
    by (simp_all add: s_sig_def wasm_valtype_kind_def WASM_STRUCT_GET_ATTR_def
        valtype_kind_at_def cell_at_def)
  have c7: "cell_at s_sig 9 = Some (ValType_obj WASM_I64)"
    and c8: "cell_at s_sig 10 = Some (ValType_obj WASM_F32)"
    by (simp_all add: s_sig_def cell_at_def)
  from functype_and_globaltype_report_their_construction[of s_sig "At 2"
        "\<lparr>vec_size = 2, vec_data = Some (At 7)\<rparr>" "At 3"
        "\<lparr>vec_size = 1, vec_data = Some (At 8)\<rparr>" 9 WASM_I64 WASM_VAR] vp vr ok len
  obtain t1 where f0: "wasm_functype_new s_sig (Some (At 2)) (Some (At 3)) = Inr (Some (At 11), t1)"
    and fa: "wasm_functype_params (Some (At 11)) = Inr (Some (Params_of 11))"
      "wasm_functype_results (Some (At 11)) = Inr (Some (Results_of 11))"
    and fp: "load_vec t1 (Params_of 11) = Inr \<lparr>vec_size = 2, vec_data = Some (At 7)\<rparr>"
    and fr: "load_vec t1 (Results_of 11) = Inr \<lparr>vec_size = 1, vec_data = Some (At 8)\<rparr>"
    and fe: "\<forall>p i. read_elem ptr_elems t1 p i = read_elem ptr_elems s_sig p i"
    and fk: "\<forall>e. wasm_valtype_kind t1 e = wasm_valtype_kind s_sig e"
    by auto
  have func: "\<exists>s1. wasm_functype_new s_sig (Some (At 2)) (Some (At 3)) = Inr (Some (At 11), s1) \<and>
      wasm_functype_params (Some (At 11)) = Inr (Some (Params_of 11)) \<and>
      wasm_functype_results (Some (At 11)) = Inr (Some (Results_of 11)) \<and>
      load_vec s1 (Params_of 11) = Inr \<lparr>vec_size = 2, vec_data = Some (At 7)\<rparr> \<and>
      read_elem ptr_elems s1 (Some (At 7)) 0 = Inr (Some (At 4)) \<and>
      wasm_valtype_kind s1 (Some (At 4)) = Inr WASM_I32 \<and>
      read_elem ptr_elems s1 (Some (At 7)) 1 = Inr (Some (At 5)) \<and>
      wasm_valtype_kind s1 (Some (At 5)) = Inr WASM_I64 \<and>
      load_vec s1 (Results_of 11) = Inr \<lparr>vec_size = 1, vec_data = Some (At 8)\<rparr> \<and>
      read_elem ptr_elems s1 (Some (At 8)) 0 = Inr (Some (At 6)) \<and>
      wasm_valtype_kind s1 (Some (At 6)) = Inr WASM_F32"
    using f0 fa fp fr fe fk rd kd by simp
  from functype_and_globaltype_report_their_construction[of s_sig "At 2"
        "\<lparr>vec_size = 2, vec_data = Some (At 7)\<rparr>" "At 3"
        "\<lparr>vec_size = 1, vec_data = Some (At 8)\<rparr>" 9 WASM_I64 WASM_VAR] c7 ok len
  obtain s1 where g1: "wasm_globaltype_new s_sig (Some (At 9)) WASM_VAR = Inr (Some (At 11), s1)"
    and m1: "wasm_globaltype_mutability s1 (Some (At 11)) = Inr WASM_VAR"
    and k1: "wasm_valtype_kind s1 (Some (Content_of 11)) = Inr WASM_I64"
    and f1: "\<forall>b. b \<noteq> 9 \<longrightarrow> b \<noteq> 11 \<longrightarrow> cell_at s1 b = cell_at s_sig b"
    and l1: "length (heap s1) = 12" and p1: "plan s1 = []"
    using pl by auto
  have c8': "cell_at s1 10 = Some (ValType_obj WASM_F32)"
    using f1 c8 by simp
  have ok1: "fst (nothrow_alloc s1)"
    using p1 by (simp add: nothrow_alloc_def)
  from functype_and_globaltype_report_their_construction[of s1 "At 2"
        "\<lparr>vec_size = 2, vec_data = Some (At 7)\<rparr>" "At 3"
        "\<lparr>vec_size = 1, vec_data = Some (At 8)\<rparr>" 10 WASM_F32 WASM_CONST] c8' ok1 l1
  obtain s2 where g2: "wasm_globaltype_new s1 (Some (At 10)) WASM_CONST = Inr (Some (At 12), s2)"
    and m2: "wasm_globaltype_mutability s2 (Some (At 12)) = Inr WASM_CONST"
    and k2: "wasm_valtype_kind s2 (Some (Content_of 12)) = Inr WASM_F32"
    and f2: "\<forall>b. b \<noteq> 10 \<longrightarrow> b \<noteq> 12 \<longrightarrow> cell_at s2 b = cell_at s1 b"
    by auto
  have c9: "cell_at s2 11 = cell_at s1 11"
    using f2 by simp
  have m1': "wasm_globaltype_mutability s2 (Some (At 11)) = Inr WASM_VAR"
    using m1 c9 by (simp add: wasm_globaltype_mutability_def WASM_STRUCT_GET_ATTR_def)
  have k1': "wasm_valtype_kind s2 (Some (Content_of 11)) = Inr WASM_I64"
    using k1 c9
    by (simp add: wasm_valtype_kind_def WASM_STRUCT_GET_ATTR_def valtype_kind_at_def)
  show ?thesis
    using func g1 g2 m1' k1' m2 k2 by blast
qed

text \<open>
  C10. \<^verbatim>\<open>wasm_store_new\<close> of a null engine returns null and leaves the state as it was.
  For an engine it returns null exactly when the allocation fails (and then no cell has
  changed), and otherwise a new store that records the pointer to the engine; the engine
  is untouched by the construction and is still there after the store is deleted.
\<close>

theorem wasm_store_new_spec:
  "wasm_store_new s None = Inr (None, s) \<and>
   (cell_at s e = Some (Engine_obj cf ic) \<longrightarrow>
      (\<exists>p s1. wasm_store_new s (Some (At e)) = Inr (p, s1) \<and>
         (p = None \<longleftrightarrow> \<not> fst (nothrow_alloc s)) \<and>
         (p = None \<longrightarrow> heap s1 = heap s \<and> calls s1 = calls s) \<and>
         cell_at s1 e = Some (Engine_obj cf ic) \<and>
         (\<forall>l. p = Some l \<longrightarrow>
            l = At (length (heap s)) \<and>
            cell_at s1 (length (heap s)) = Some (Store_obj (Some (At e)) cf cf) \<and>
            (\<forall>b. b \<noteq> length (heap s) \<longrightarrow> cell_at s1 b = cell_at s b) \<and>
            (\<exists>s2. wasm_store_delete s1 p = Inr s2 \<and>
               cell_at s2 e = Some (Engine_obj cf ic)))))"
proof (intro conjI impI)
  show "wasm_store_new s None = Inr (None, s)"
    by (simp add: wasm_store_new_def)
next
  assume eng: "cell_at s e = Some (Engine_obj cf ic)"
  obtain ok s0 where al: "nothrow_alloc s = (ok, s0)"
    by (cases "nothrow_alloc s")
  have h0: "heap s0 = heap s" and c0: "\<And>b. cell_at s0 b = cell_at s b"
    using nothrow_alloc_heap[of s] cell_at_nothrow_alloc[of s] al by simp_all
  have k0: "calls s0 = calls s"
    using nothrow_alloc_calls[of s] al by simp
  have elt: "e < length (heap s)"
    using eng by (rule cell_at_less)
  show "\<exists>p s1. wasm_store_new s (Some (At e)) = Inr (p, s1) \<and>
         (p = None \<longleftrightarrow> \<not> fst (nothrow_alloc s)) \<and>
         (p = None \<longrightarrow> heap s1 = heap s \<and> calls s1 = calls s) \<and>
         cell_at s1 e = Some (Engine_obj cf ic) \<and>
         (\<forall>l. p = Some l \<longrightarrow>
            l = At (length (heap s)) \<and>
            cell_at s1 (length (heap s)) = Some (Store_obj (Some (At e)) cf cf) \<and>
            (\<forall>b. b \<noteq> length (heap s) \<longrightarrow> cell_at s1 b = cell_at s b) \<and>
            (\<exists>s2. wasm_store_delete s1 p = Inr s2 \<and>
               cell_at s2 e = Some (Engine_obj cf ic)))"
  proof (cases ok)
    case False
    then have "wasm_store_new s (Some (At e)) = Inr (None, s0)"
      using al by (simp add: wasm_store_new_def new_nothrow_def)
    then show ?thesis
      using False al h0 k0 c0 eng by simp
  next
    case True
    define s1 where "s1 = snd (place s0 (Store_obj (Some (At e)) cf cf))"
    have run: "wasm_store_new s (Some (At e)) = Inr (Some (At (length (heap s))), s1)"
      using True al eng c0 h0
      by (simp add: wasm_store_new_def new_nothrow_def wasm_store_t_init_def engine_conf_def
          no_body_def place_def s1_def)
    have c1: "\<And>b. cell_at s1 b =
        (if b = length (heap s) then Some (Store_obj (Some (At e)) cf cf) else cell_at s b)"
      unfolding s1_def by (simp add: cell_at_place h0 c0)
    have del: "wasm_store_delete s1 (Some (At (length (heap s)))) =
        Inr (release s1 (length (heap s)))"
      by (simp add: wasm_store_delete_def WASM_DECLARE_OWN_IMPL_def WASM_STRUCT_GET_ATTR_def
          delete_obj_def c1 is_store_def)
    show ?thesis
      using run True al c1 del elt eng by (simp add: cell_at_release)
  qed
qed

theorem wasm_store_new_spec_witness:
  "cell_at s_engine 0 = Some (Engine_obj (Configure 7) (Configure 7)) \<and>
   wasm_store_new s_engine None = Inr (None, s_engine) \<and>
   (\<exists>s1. wasm_store_new s_engine (Some (At 0)) = Inr (Some (At 1), s1) \<and>
      cell_at s1 1 = Some (Store_obj (Some (At 0)) (Configure 7) (Configure 7)) \<and>
      cell_at s1 0 = Some (Engine_obj (Configure 7) (Configure 7)))"
proof -
  have eng: "cell_at s_engine 0 = Some (Engine_obj (Configure 7) (Configure 7))"
    by (simp add: s_engine_def cell_at_def)
  have ok: "fst (nothrow_alloc s_engine)"
    by (simp add: s_engine_def nothrow_alloc_def)
  have len: "length (heap s_engine) = 1"
    by (simp add: s_engine_def)
  show ?thesis
    using wasm_store_new_spec[of s_engine 0 "Configure 7" "Configure 7"] eng ok len
    by auto
qed

end
